theory Spec2Isabelle
  imports Complex_Main "HOL-Library.AList"
begin

section \<open>One-way slab design engine (app.py)\<close>

text \<open>
  A shallow embedding of the calculation classes of \<^verbatim>\<open>app.py\<close>:
  \<^verbatim>\<open>MaterialProperties\<close>, \<^verbatim>\<open>Loads\<close>, \<^verbatim>\<open>BarProperties\<close> and \<^verbatim>\<open>OneWaySlab\<close>.

  Conventions of the model.
  \<^item> Python numbers (\<^verbatim>\<open>int\<close> and \<^verbatim>\<open>float\<close>) are exact reals; the rounding of IEEE
    arithmetic is outside the model. The results of \<^verbatim>\<open>math.ceil\<close> and
    \<^verbatim>\<open>math.floor\<close> are integers, as in Python.
  \<^item> Every exception the arithmetic can raise is a value of \<open>error\<close>: a division by
    zero, \<^verbatim>\<open>math.sqrt\<close> of a negative number, a missing dictionary key, arithmetic on
    \<^verbatim>\<open>None\<close>.
  \<^item> A method of \<^verbatim>\<open>OneWaySlab\<close> takes the object's state and returns the value it
    returns together with the updated state.
  \<^item> Dictionaries are association lists in insertion order, as Python iterates them.
\<close>

subsection \<open>Exceptions and the operations that raise them\<close>

datatype error = KeyError | ValueError | ZeroDivisionError | TypeError

fun ebind :: "error + 'a \<Rightarrow> ('a \<Rightarrow> error + 'b) \<Rightarrow> error + 'b" where
  "ebind (Inl e) f = Inl e"
| "ebind (Inr x) f = f x"

definition py_div :: "real \<Rightarrow> real \<Rightarrow> error + real" where
  "py_div a b = (if b = 0 then Inl ZeroDivisionError else Inr (a / b))"

definition py_sqrt :: "real \<Rightarrow> error + real" where
  "py_sqrt x = (if x < 0 then Inl ValueError else Inr (sqrt x))"

definition dict_get :: "(string \<times> 'v) list \<Rightarrow> string \<Rightarrow> error + 'v" where
  "dict_get dct k = (case map_of dct k of None \<Rightarrow> Inl KeyError | Some v \<Rightarrow> Inr v)"

definition num_of :: "real option \<Rightarrow> error + real" where
  \<comment> \<open>reading an attribute for arithmetic: \<^verbatim>\<open>None\<close> raises TypeError\<close>
  "num_of x = (case x of None \<Rightarrow> Inl TypeError | Some v \<Rightarrow> Inr v)"

subsection \<open>Data classes\<close>

record MaterialProperties =
  fc_prime :: real
  fy :: real
  concrete_density :: real
  cover :: real

record Loads =
  superimposed_dead :: real
  live_load :: real

record BarProperties =
  bar_size :: string
  diameter :: real
  area :: real

definition BAR_DATA :: "(string \<times> real \<times> real) list" where
  \<comment> \<open>bar name, (diameter, area)\<close>
  "BAR_DATA =
    [(''#10'', 9.5, 71),
     (''#13'', 12.7, 129),
     (''#16'', 15.9, 199),
     (''#19'', 19.1, 284),
     (''#22'', 22.2, 387),
     (''#25'', 25.4, 510),
     (''#29'', 28.7, 645),
     (''#32'', 32.3, 819),
     (''#36'', 35.8, 1006)]"

definition BarProperties_init :: "string \<Rightarrow> error + BarProperties" where
  "BarProperties_init bs =
    (case map_of BAR_DATA bs of
       None \<Rightarrow> Inl ValueError
     | Some (dia, ar) \<Rightarrow> Inr \<lparr>bar_size = bs, diameter = dia, area = ar\<rparr>)"

subsection \<open>The result dictionaries\<close>

text \<open>
  The advisory note is an f-string built from the override and the rounded minimum;
  the model keeps the two interpolated values.
\<close>

datatype advisory = Warning_below_minimum real int

record reinforcement =
  fl_location :: string
  fl_Mu :: real
  fl_Rn :: real
  fl_rho :: real
  fl_As_req :: real
  fl_As_min :: real
  fl_As_final :: real
  fl_As_prov :: real
  fl_spacing_req :: real
  fl_spacing_max :: real
  fl_spacing_final :: int
  fl_bar_size :: string
  fl_bar_area :: real

record shrinkage =
  sh_As_req :: real
  sh_As_prov :: real
  sh_spacing_req :: real
  sh_spacing_max :: real
  sh_spacing_final :: int
  sh_bar_size :: string
  sh_bar_area :: real

datatype shear_status = PASS | FAIL

record shear =
  sv_Vu :: real
  sv_Vc :: real
  sv_phiVc :: real
  sv_utilization :: real
  sv_status :: shear_status

subsection \<open>The state of a OneWaySlab object\<close>

text \<open>
  The input attributes are assigned by the caller before \<^verbatim>\<open>design()\<close> runs
  (\<^verbatim>\<open>app.py\<close>, lines 817 to 834); the accumulators \<^verbatim>\<open>h\<close>, \<^verbatim>\<open>d\<close> and \<^verbatim>\<open>wu\<close> start as
  \<^verbatim>\<open>None\<close>, the dictionaries \<^verbatim>\<open>shrinkage\<close> and \<^verbatim>\<open>shear\<close> start empty (\<open>None\<close> here).
\<close>

record slab =
  self_clear_span :: real
  self_material :: MaterialProperties
  self_loads :: Loads
  self_support_condition :: string
  self_main_bar :: BarProperties
  self_shrinkage_bar :: BarProperties
  self_user_h :: "real option"
  self_h :: "real option"
  self_d :: "real option"
  self_wu :: "real option"
  self_moments :: "(string \<times> real) list"
  self_reinforcement :: "(string \<times> reinforcement) list"
  self_shrinkage :: "shrinkage option"
  self_shear :: "shear option"
  self_notes :: "advisory list"

definition new_slab ::
  "real \<Rightarrow> MaterialProperties \<Rightarrow> Loads \<Rightarrow> string \<Rightarrow> BarProperties \<Rightarrow> BarProperties
     \<Rightarrow> real option \<Rightarrow> slab" where
  \<comment> \<open>\<^verbatim>\<open>OneWaySlab()\<close> followed by the caller's assignments; the override is assigned
      only when it is truthy\<close>
  "new_slab clear_span material loads support_condition main_bar shrinkage_bar user_thickness =
    \<lparr>self_clear_span = clear_span,
     self_material = material,
     self_loads = loads,
     self_support_condition = support_condition,
     self_main_bar = main_bar,
     self_shrinkage_bar = shrinkage_bar,
     self_user_h = (case user_thickness of
                      None \<Rightarrow> None
                    | Some ut \<Rightarrow> if ut \<noteq> 0 then Some ut else None),
     self_h = None,
     self_d = None,
     self_wu = None,
     self_moments = [],
     self_reinforcement = [],
     self_shrinkage = None,
     self_shear = None,
     self_notes = []\<rparr>"

subsection \<open>Code tables\<close>

definition THICKNESS_COEFFICIENTS :: "(string \<times> real) list" where
  "THICKNESS_COEFFICIENTS =
    [(''simply_supported'', 20),
     (''one_end_continuous'', 24),
     (''both_ends_continuous'', 28),
     (''cantilever'', 10)]"

definition MOMENT_COEFFICIENT_VALUES :: "(string \<times> real) list" where
  "MOMENT_COEFFICIENT_VALUES =
    [(''exterior_negative'', 1 / 24),
     (''exterior_positive'', 1 / 14),
     (''interior_negative_first'', 1 / 10),
     (''interior_positive'', 1 / 16),
     (''interior_negative'', 1 / 11),
     (''simple_span'', 1 / 8),
     (''cantilever'', 1 / 2)]"

subsection \<open>Step 1: initial thickness\<close>

definition calculate_initial_thickness ::
  "slab \<Rightarrow> real \<Rightarrow> string \<Rightarrow> real option \<Rightarrow> error + (real \<times> slab)" where
  "calculate_initial_thickness s clear_span support_condition user_thickness =
    ebind (dict_get THICKNESS_COEFFICIENTS support_condition) (\<lambda>coefficient.
    ebind (py_div clear_span coefficient) (\<lambda>h_calc.
      let h_rounded = \<lceil>h_calc / 10\<rceil> * 10 in
      (case user_thickness of
         Some ut \<Rightarrow>
           if ut \<noteq> 0 then
             (if ut < of_int h_rounded then
                Inr (ut, s\<lparr>self_notes := self_notes s @ [Warning_below_minimum ut h_rounded],
                           self_h := Some ut\<rparr>)
              else Inr (ut, s\<lparr>self_h := Some ut\<rparr>))
           else Inr (of_int h_rounded, s\<lparr>self_h := Some (of_int h_rounded)\<rparr>)
       | None \<Rightarrow> Inr (of_int h_rounded, s\<lparr>self_h := Some (of_int h_rounded)\<rparr>))))"

subsection \<open>Step 2: factored load\<close>

definition calculate_factored_load :: "slab \<Rightarrow> error + ((real \<times> real \<times> real) \<times> slab)" where
  "calculate_factored_load s =
    ebind (num_of (self_h s)) (\<lambda>h.
      let self_weight = (h / 1000) * concrete_density (self_material s);
          total_dead = superimposed_dead (self_loads s) + self_weight;
          wu = 1.2 * total_dead + 1.6 * live_load (self_loads s)
      in Inr ((wu, total_dead, self_weight), s\<lparr>self_wu := Some wu\<rparr>))"

subsection \<open>Step 3: factored moments\<close>

definition calculate_moments :: "slab \<Rightarrow> error + ((string \<times> real) list \<times> slab)" where
  "calculate_moments s =
    (let L_m = self_clear_span s / 1000 in
     ebind (num_of (self_wu s)) (\<lambda>wu.
       let base_moment = wu * L_m ^ 2 in
       if self_support_condition s = ''simply_supported'' then
         ebind (dict_get MOMENT_COEFFICIENT_VALUES ''simple_span'') (\<lambda>coeff.
           let ms = [(''Positive Moment (Midspan)'', coeff * base_moment)]
           in Inr (ms, s\<lparr>self_moments := ms\<rparr>))
       else if self_support_condition s = ''one_end_continuous'' then
         ebind (dict_get MOMENT_COEFFICIENT_VALUES ''exterior_negative'') (\<lambda>c1.
         ebind (dict_get MOMENT_COEFFICIENT_VALUES ''exterior_positive'') (\<lambda>c2.
         ebind (dict_get MOMENT_COEFFICIENT_VALUES ''interior_negative_first'') (\<lambda>c3.
           let ms = [(''Negative Moment (Exterior Support)'', c1 * base_moment),
                     (''Positive Moment (Midspan)'', c2 * base_moment),
                     (''Negative Moment (First Interior Support)'', c3 * base_moment)]
           in Inr (ms, s\<lparr>self_moments := ms\<rparr>))))
       else if self_support_condition s = ''both_ends_continuous'' then
         ebind (dict_get MOMENT_COEFFICIENT_VALUES ''interior_negative'') (\<lambda>c1.
         ebind (dict_get MOMENT_COEFFICIENT_VALUES ''interior_positive'') (\<lambda>c2.
           let ms = [(''Negative Moment (Supports)'', c1 * base_moment),
                     (''Positive Moment (Midspan)'', c2 * base_moment)]
           in Inr (ms, s\<lparr>self_moments := ms\<rparr>)))
       else if self_support_condition s = ''cantilever'' then
         ebind (dict_get MOMENT_COEFFICIENT_VALUES ''cantilever'') (\<lambda>coeff.
           let ms = [(''Negative Moment (Support)'', coeff * base_moment)]
           in Inr (ms, s\<lparr>self_moments := ms\<rparr>))
       else Inr (self_moments s, s)))"

subsection \<open>Step 4: effective depth\<close>

definition calculate_effective_depth :: "slab \<Rightarrow> error + (real \<times> slab)" where
  "calculate_effective_depth s =
    ebind (num_of (self_h s)) (\<lambda>h.
      let d = h - cover (self_material s) - (diameter (self_main_bar s) / 2)
      in Inr (d, s\<lparr>self_d := Some d\<rparr>))"

subsection \<open>Steps 5 and 6: flexural reinforcement\<close>

definition calculate_required_steel ::
  "slab \<Rightarrow> real \<Rightarrow> string \<Rightarrow> error + (reinforcement option \<times> slab)" where
  "calculate_required_steel s0 Mu location =
    ebind (if self_d s0 = None
           then ebind (calculate_effective_depth s0) (\<lambda>(d, s'). Inr s')
           else Inr s0) (\<lambda>s.
    if Mu \<le> 0 then Inr (None, s) else
    (let Mu_nmm = Mu * 1000000;
         phi = 0.9;
         b = 1000 in
     ebind (num_of (self_d s)) (\<lambda>d.
     ebind (py_div Mu_nmm (phi * b * d ^ 2)) (\<lambda>Rn.
     ebind (py_div (fy (self_material s)) (0.85 * fc_prime (self_material s))) (\<lambda>m.
     ebind (py_div (2 * m * Rn) (fy (self_material s))) (\<lambda>q.
     let term = 1 - q in
     ebind (if term < 0 then Inr 0.02
            else ebind (py_div 1 m) (\<lambda>inv_m.
                 ebind (py_sqrt term) (\<lambda>rt. Inr (inv_m * (1 - rt))))) (\<lambda>rho.
     let As_req = rho * b * d in
     ebind (num_of (self_h s)) (\<lambda>h.
     let Ag = b * h in
     ebind (if fy (self_material s) < 420 then Inr (0.0020 * Ag)
            else ebind (py_div (0.0018 * 420) (fy (self_material s))) (\<lambda>r.
                 Inr (max (r * Ag) (0.0014 * Ag)))) (\<lambda>As_min.
     let As_final = max As_req As_min in
     ebind (py_div (1000 * area (self_main_bar s)) As_final) (\<lambda>spacing_req.
     let spacing_max_by_code = min (3 * h) 450;
         spacing_max = min spacing_req spacing_max_by_code;
         spacing_final = max 75 (\<lfloor>spacing_max / 25\<rfloor> * 25) in
     ebind (py_div (1000 * area (self_main_bar s)) (of_int spacing_final)) (\<lambda>As_provided.
     Inr (Some \<lparr>fl_location = location,
                fl_Mu = Mu,
                fl_Rn = Rn,
                fl_rho = rho,
                fl_As_req = As_req,
                fl_As_min = As_min,
                fl_As_final = As_final,
                fl_As_prov = As_provided,
                fl_spacing_req = spacing_req,
                fl_spacing_max = spacing_max,
                fl_spacing_final = spacing_final,
                fl_bar_size = bar_size (self_main_bar s),
                fl_bar_area = area (self_main_bar s)\<rparr>, s))))))))))))"

subsection \<open>Step 7: shrinkage and temperature reinforcement\<close>

definition calculate_shrinkage_steel :: "slab \<Rightarrow> error + shrinkage" where
  "calculate_shrinkage_steel s =
    ebind (num_of (self_h s)) (\<lambda>h.
    let Ag = 1000 * h in
    ebind (if fy (self_material s) < 420 then Inr (0.0020 * Ag)
           else ebind (py_div (0.0018 * 420) (fy (self_material s))) (\<lambda>r. Inr (r * Ag)))
      (\<lambda>As_sh_req.
    ebind (py_div (1000 * area (self_shrinkage_bar s)) As_sh_req) (\<lambda>spacing_req.
    let spacing_max_by_code = min (5 * h) 450;
        spacing_max = min spacing_req spacing_max_by_code;
        spacing_final = \<lfloor>spacing_max / 25\<rfloor> * 25 in
    ebind (py_div (1000 * area (self_shrinkage_bar s)) (of_int spacing_final)) (\<lambda>As_provided.
    Inr \<lparr>sh_As_req = As_sh_req,
         sh_As_prov = As_provided,
         sh_spacing_req = spacing_req,
         sh_spacing_max = spacing_max,
         sh_spacing_final = spacing_final,
         sh_bar_size = bar_size (self_shrinkage_bar s),
         sh_bar_area = area (self_shrinkage_bar s)\<rparr>))))"

subsection \<open>Step 8: one-way shear\<close>

definition check_shear :: "slab \<Rightarrow> error + shear" where
  "check_shear s =
    (let L_n = self_clear_span s / 1000 in
     ebind (num_of (self_d s)) (\<lambda>d.
     let d_m = d / 1000 in
     ebind (num_of (self_wu s)) (\<lambda>wu.
     let Vu0 =
          (if self_support_condition s = ''simply_supported'' then wu * (L_n / 2 - d_m)
           else if self_support_condition s = ''one_end_continuous'' then
             (let Vu_simple = wu * (L_n / 2 - d_m);
                  Vu_continuous = wu * (0.575 * L_n - d_m)
              in max Vu_simple Vu_continuous)
           else if self_support_condition s = ''both_ends_continuous'' then wu * (L_n / 2 - d_m)
           else if self_support_condition s = ''cantilever'' then wu * L_n
           else wu * (L_n / 2));
         Vu = max Vu0 0;
         lamda = 1.0 in
     ebind (py_sqrt (fc_prime (self_material s))) (\<lambda>sqrt_fc.
     let Vc = 0.17 * lamda * sqrt_fc * 1000 * d / 1000;
         phiVc = 0.75 * Vc;
         utilization = (if phiVc > 0 then (Vu / phiVc) * 100 else 0);
         status = (if Vu \<le> phiVc then PASS else FAIL)
     in Inr \<lparr>sv_Vu = Vu,
             sv_Vc = Vc,
             sv_phiVc = phiVc,
             sv_utilization = utilization,
             sv_status = status\<rparr>))))"

subsection \<open>The complete design\<close>

record design_result =
  res_thickness :: "real option"
  res_effective_depth :: "real option"
  res_factored_load :: "real option"
  res_self_weight :: real
  res_total_dead :: real
  res_moments :: "(string \<times> real) list"
  res_reinforcement :: "(string \<times> reinforcement) list"
  res_shrinkage :: "shrinkage option"
  res_shear :: "shear option"
  res_notes :: "advisory list"

text \<open>The loop of \<^verbatim>\<open>design\<close> over \<^verbatim>\<open>self.moments.items()\<close>.\<close>

fun design_loop :: "slab \<Rightarrow> (string \<times> real) list \<Rightarrow> error + slab" where
  "design_loop s [] = Inr s"
| "design_loop s ((location, Mu) # rest) =
    ebind (calculate_required_steel s Mu location) (\<lambda>(result, s').
      (case result of
         Some r \<Rightarrow>
           design_loop (s'\<lparr>self_reinforcement :=
                             AList.update location r (self_reinforcement s')\<rparr>) rest
       | None \<Rightarrow> design_loop s' rest))"

definition design :: "slab \<Rightarrow> error + (design_result \<times> slab)" where
  "design s0 =
    ebind (calculate_initial_thickness s0 (self_clear_span s0) (self_support_condition s0)
             (self_user_h s0)) (\<lambda>(h, s1).
    ebind (calculate_factored_load s1) (\<lambda>((wu, total_dead, self_weight), s2).
    ebind (calculate_moments s2) (\<lambda>(moments, s3).
    ebind (calculate_effective_depth s3) (\<lambda>(d, s4).
    ebind (design_loop (s4\<lparr>self_reinforcement := []\<rparr>) (self_moments s4)) (\<lambda>s5.
    ebind (calculate_shrinkage_steel s5) (\<lambda>sh.
    let s6 = s5\<lparr>self_shrinkage := Some sh\<rparr> in
    ebind (check_shear s6) (\<lambda>sv.
    let s7 = s6\<lparr>self_shear := Some sv\<rparr> in
    Inr (\<lparr>res_thickness = self_h s7,
          res_effective_depth = self_d s7,
          res_factored_load = self_wu s7,
          res_self_weight = self_weight,
          res_total_dead = total_dead,
          res_moments = self_moments s7,
          res_reinforcement = self_reinforcement s7,
          res_shrinkage = self_shrinkage s7,
          res_shear = self_shear s7,
          res_notes = self_notes s7\<rparr>, s7))))))))"

subsection \<open>Concrete inputs\<close>

text \<open>
  The default form values of the application: clear span 3500 mm, simply supported,
  f'c 28 MPa, fy 420 MPa, density 25, cover 20 mm, dead load 1.5, live load 3.0,
  bars #13, no thickness override.
\<close>

definition bar13 :: BarProperties where
  "bar13 = \<lparr>bar_size = ''#13'', diameter = 12.7, area = 129\<rparr>"

definition bar10 :: BarProperties where
  "bar10 = \<lparr>bar_size = ''#10'', diameter = 9.5, area = 71\<rparr>"

definition bar25 :: BarProperties where
  "bar25 = \<lparr>bar_size = ''#25'', diameter = 25.4, area = 510\<rparr>"

definition default_material :: MaterialProperties where
  "default_material = \<lparr>fc_prime = 28, fy = 420, concrete_density = 25, cover = 20\<rparr>"

definition default_loads :: Loads where
  "default_loads = \<lparr>superimposed_dead = 1.5, live_load = 3.0\<rparr>"

definition scenario_A :: slab where
  "scenario_A =
     new_slab 3500 default_material default_loads ''simply_supported'' bar13 bar13 None"

text \<open>The default slab after steps 1 to 4 of \<^verbatim>\<open>design\<close>.\<close>

definition scenario_A_sized :: slab where
  "scenario_A_sized =
     scenario_A\<lparr>self_h := Some 180, self_d := Some 153.65, self_wu := Some 12,
                self_moments := [(''Positive Moment (Midspan)'', 18.375)]\<rparr>"

text \<open>
  A thick slab: the default input with fy 400 MPa, shrinkage bars #10 and a thickness
  override of 1500 mm.
\<close>

definition thick_slab :: slab where
  "thick_slab =
     new_slab 3500 (default_material\<lparr>fy := 400\<rparr>) default_loads ''simply_supported''
       bar13 bar10 (Some 1500)"

text \<open>
  Scenario D of the specification: thickness override 50 mm, cover 40 mm, main bar #25
  (diameter 25.4 mm), everything else as the default.
\<close>

definition scenario_D :: slab where
  "scenario_D =
     new_slab 3500 (default_material\<lparr>cover := 40\<rparr>) default_loads ''simply_supported''
       bar25 bar13 (Some 50)"

text \<open>The default input with a negative steel yield strength.\<close>

definition negative_fy_slab :: slab where
  "negative_fy_slab =
     new_slab 3500 (default_material\<lparr>fy := - 420\<rparr>) default_loads ''simply_supported''
       bar13 bar13 None"

text \<open>Scenario D after steps 1 to 4 of \<^verbatim>\<open>design\<close>: the effective depth is negative.\<close>

definition scenario_D_sized :: slab where
  "scenario_D_sized =
     scenario_D\<lparr>self_notes := [Warning_below_minimum 50 180], self_h := Some 50,
                self_wu := Some 8.1,
                self_moments := [(''Positive Moment (Midspan)'', 12.403125)],
                self_d := Some (- 2.7)\<rparr>"

text \<open>The default input with a thickness override of 100 mm, below the minimum of 180 mm.\<close>

definition override_slab :: slab where
  "override_slab =
     new_slab 3500 default_material default_loads ''simply_supported'' bar13 bar13 (Some 100)"

section \<open>Properties\<close>

subsection \<open>Exceptions\<close>

lemma ebind_Inr_iff: "ebind m f = Inr y \<longleftrightarrow> (\<exists>x. m = Inr x \<and> f x = Inr y)"
  by (cases m) auto

lemma ebindE:
  "ebind m f = Inr y \<Longrightarrow> (\<And>x. m = Inr x \<Longrightarrow> f x = Inr y \<Longrightarrow> P) \<Longrightarrow> P"
  by (cases m) auto

lemma py_div_Inr_iff: "py_div a b = Inr q \<longleftrightarrow> b \<noteq> 0 \<and> q = a / b"
  by (auto simp: py_div_def)

lemma py_div_nonzero: "b \<noteq> 0 \<Longrightarrow> py_div a b = Inr (a / b)"
  by (simp add: py_div_def)

lemma py_sqrt_Inr_iff: "py_sqrt x = Inr r \<longleftrightarrow> 0 \<le> x \<and> r = sqrt x"
  by (auto simp: py_sqrt_def)

lemma num_of_Inr_iff: "num_of x = Inr v \<longleftrightarrow> x = Some v"
  by (cases x) (auto simp: num_of_def)

subsection \<open>Code tables\<close>

lemma thickness_coefficient_simps:
  "dict_get THICKNESS_COEFFICIENTS ''simply_supported'' = Inr 20"
  "dict_get THICKNESS_COEFFICIENTS ''one_end_continuous'' = Inr 24"
  "dict_get THICKNESS_COEFFICIENTS ''both_ends_continuous'' = Inr 28"
  "dict_get THICKNESS_COEFFICIENTS ''cantilever'' = Inr 10"
  by (simp_all add: dict_get_def THICKNESS_COEFFICIENTS_def)

lemma moment_coefficient_simps:
  "dict_get MOMENT_COEFFICIENT_VALUES ''exterior_negative'' = Inr (1 / 24)"
  "dict_get MOMENT_COEFFICIENT_VALUES ''exterior_positive'' = Inr (1 / 14)"
  "dict_get MOMENT_COEFFICIENT_VALUES ''interior_negative_first'' = Inr (1 / 10)"
  "dict_get MOMENT_COEFFICIENT_VALUES ''interior_positive'' = Inr (1 / 16)"
  "dict_get MOMENT_COEFFICIENT_VALUES ''interior_negative'' = Inr (1 / 11)"
  "dict_get MOMENT_COEFFICIENT_VALUES ''simple_span'' = Inr (1 / 8)"
  "dict_get MOMENT_COEFFICIENT_VALUES ''cantilever'' = Inr (1 / 2)"
  by (simp_all add: dict_get_def MOMENT_COEFFICIENT_VALUES_def)

subsection \<open>Moment solver\<close>

text \<open>
  Claim C4. For each of the four support conditions the moments map produced by
  \<^verbatim>\<open>calculate_moments\<close> has exactly the fixed keys of that condition (one key for
  simply supported, three for one end continuous, two for both ends continuous, one for
  cantilever), and each named moment is its ACI coefficient (1/8; 1/24, 1/14, 1/10;
  1/11, 1/16; 1/2) times \<open>M0 = wu * (clear span / 1000)\<^sup>2\<close>. The map is returned and
  stored in \<^verbatim>\<open>self.moments\<close>.
\<close>

theorem moments_keys_and_coefficients:
  assumes "self_wu s = Some wu"
  shows "(self_support_condition s = ''simply_supported'' \<longrightarrow>
            (\<exists>ms. calculate_moments s = Inr (ms, s\<lparr>self_moments := ms\<rparr>)
               \<and> ms = [(''Positive Moment (Midspan)'',
                         1 / 8 * (wu * (self_clear_span s / 1000) ^ 2))]
               \<and> card (fst ` set ms) = 1))
       \<and> (self_support_condition s = ''one_end_continuous'' \<longrightarrow>
            (\<exists>ms. calculate_moments s = Inr (ms, s\<lparr>self_moments := ms\<rparr>)
               \<and> ms = [(''Negative Moment (Exterior Support)'',
                         1 / 24 * (wu * (self_clear_span s / 1000) ^ 2)),
                        (''Positive Moment (Midspan)'',
                         1 / 14 * (wu * (self_clear_span s / 1000) ^ 2)),
                        (''Negative Moment (First Interior Support)'',
                         1 / 10 * (wu * (self_clear_span s / 1000) ^ 2))]
               \<and> card (fst ` set ms) = 3))
       \<and> (self_support_condition s = ''both_ends_continuous'' \<longrightarrow>
            (\<exists>ms. calculate_moments s = Inr (ms, s\<lparr>self_moments := ms\<rparr>)
               \<and> ms = [(''Negative Moment (Supports)'',
                         1 / 11 * (wu * (self_clear_span s / 1000) ^ 2)),
                        (''Positive Moment (Midspan)'',
                         1 / 16 * (wu * (self_clear_span s / 1000) ^ 2))]
               \<and> card (fst ` set ms) = 2))
       \<and> (self_support_condition s = ''cantilever'' \<longrightarrow>
            (\<exists>ms. calculate_moments s = Inr (ms, s\<lparr>self_moments := ms\<rparr>)
               \<and> ms = [(''Negative Moment (Support)'',
                         1 / 2 * (wu * (self_clear_span s / 1000) ^ 2))]
               \<and> card (fst ` set ms) = 1))"
  using assms
  by (simp add: calculate_moments_def num_of_def moment_coefficient_simps Let_def)

theorem moments_keys_and_coefficients_witness:
  "map_sum id fst (calculate_moments (scenario_A\<lparr>self_wu := Some 12\<rparr>))
     = Inr [(''Positive Moment (Midspan)'', 18.375)]
   \<and> map_sum id fst (calculate_moments
        (scenario_A\<lparr>self_wu := Some 12, self_support_condition := ''one_end_continuous''\<rparr>))
     = Inr [(''Negative Moment (Exterior Support)'', 6.125),
            (''Positive Moment (Midspan)'', 10.5),
            (''Negative Moment (First Interior Support)'', 14.7)]
   \<and> map_sum id fst (calculate_moments
        (scenario_A\<lparr>self_wu := Some 11, self_support_condition := ''both_ends_continuous''\<rparr>))
     = Inr [(''Negative Moment (Supports)'', 12.25),
            (''Positive Moment (Midspan)'', 8.421875)]
   \<and> map_sum id fst (calculate_moments
        (scenario_A\<lparr>self_wu := Some 12, self_support_condition := ''cantilever''\<rparr>))
     = Inr [(''Negative Moment (Support)'', 73.5)]"
  using moments_keys_and_coefficients [of "scenario_A\<lparr>self_wu := Some 12\<rparr>" 12]
        moments_keys_and_coefficients
          [of "scenario_A\<lparr>self_wu := Some 12, self_support_condition := ''one_end_continuous''\<rparr>" 12]
        moments_keys_and_coefficients
          [of "scenario_A\<lparr>self_wu := Some 11, self_support_condition := ''both_ends_continuous''\<rparr>" 11]
        moments_keys_and_coefficients
          [of "scenario_A\<lparr>self_wu := Some 12, self_support_condition := ''cantilever''\<rparr>" 12]
  by (simp add: scenario_A_def new_slab_def power2_eq_square)

subsection \<open>Flexural reinforcement sizer: auxiliary facts\<close>

lemma calculate_effective_depth_Inr_iff:
  "calculate_effective_depth s = Inr (d, s') \<longleftrightarrow>
     (\<exists>h. self_h s = Some h \<and> d = h - cover (self_material s) - diameter (self_main_bar s) / 2
        \<and> s' = s\<lparr>self_d := Some d\<rparr>)"
  by (auto simp: calculate_effective_depth_def ebind_Inr_iff num_of_Inr_iff Let_def)

lemma calculate_required_steel_skip:
  "self_d s = Some d \<Longrightarrow> Mu \<le> 0 \<Longrightarrow> calculate_required_steel s Mu loc = Inr (None, s)"
  by (simp add: calculate_required_steel_def)

lemma calculate_required_steel_elim:
  assumes "calculate_required_steel s Mu loc = Inr (Some r, s')"
      and "self_h s = Some h" and "self_d s = Some d"
  shows "s' = s \<and> 0 < Mu
       \<and> fl_spacing_final r = max 75 (\<lfloor>fl_spacing_max r / 25\<rfloor> * 25)
       \<and> fl_spacing_max r = min (fl_spacing_req r) (min (3 * h) 450)
       \<and> fl_As_final r \<noteq> 0
       \<and> fl_spacing_req r = 1000 * area (self_main_bar s) / fl_As_final r
       \<and> fl_As_final r = max (fl_As_req r) (fl_As_min r)
       \<and> fl_As_prov r = 1000 * area (self_main_bar s) / of_int (fl_spacing_final r)
       \<and> fl_location r = loc \<and> fl_Mu r = Mu"
  using assms unfolding calculate_required_steel_def Let_def
  apply (simp only: option.distinct if_False ebind.simps)
  apply (simp only: split: if_splits)
   apply simp
  apply ((erule ebindE, (simp only: py_div_Inr_iff num_of_Inr_iff option.inject)?)+)
  apply (elim conjE)
  apply (simp only: sum.inject prod.inject option.inject)
  apply (elim conjE)
  apply hypsubst
  apply (simp only: reinforcement.select_convs)
  apply (intro conjI refl)
   apply (simp only: not_le)
  apply (simp only: not_False_eq_True)
  done

lemma calculate_required_steel_returns:
  assumes d: "self_d s = Some d" "d \<noteq> 0"
      and h: "self_h s = Some h" "0 < h"
      and m: "fc_prime (self_material s) \<noteq> 0" "fy (self_material s) \<noteq> 0"
  shows "\<exists>res. calculate_required_steel s Mu loc = Inr (res, s)"
proof (cases "Mu \<le> 0")
  case True
  with d show ?thesis by (simp add: calculate_required_steel_skip)
next
  case False
  define Rn where "Rn = Mu * 1000000 / (0.9 * 1000 * d ^ 2)"
  define mm where "mm = fy (self_material s) / (0.85 * fc_prime (self_material s))"
  define q where "q = 2 * mm * Rn / fy (self_material s)"
  have "0.9 * 1000 * d ^ 2 \<noteq> 0" using d by simp
  then have f1: "py_div (Mu * 1000000) (0.9 * 1000 * d ^ 2) = Inr Rn"
    unfolding Rn_def by (rule py_div_nonzero)
  have "0.85 * fc_prime (self_material s) \<noteq> 0" using m by simp
  then have f2: "py_div (fy (self_material s)) (0.85 * fc_prime (self_material s)) = Inr mm"
    unfolding mm_def by (rule py_div_nonzero)
  have f3: "py_div (2 * mm * Rn) (fy (self_material s)) = Inr q"
    unfolding q_def using m(2) by (rule py_div_nonzero)
  have mm0: "mm \<noteq> 0" using m by (simp add: mm_def)
  have "\<exists>rho. (if 1 - q < 0 then Inr 0.02
            else ebind (py_div 1 mm) (\<lambda>inv_m.
                 ebind (py_sqrt (1 - q)) (\<lambda>rt. Inr (inv_m * (1 - rt))))) = (Inr rho :: error + real)"
  proof (cases "1 - q < 0")
    case True
    then show ?thesis by (intro exI[of _ "0.02"]) (simp only: if_True)
  next
    case False
    have "py_div 1 mm = Inr (1 / mm)" using mm0 by (rule py_div_nonzero)
    moreover have "py_sqrt (1 - q) = Inr (sqrt (1 - q))"
      using False by (simp only: py_sqrt_def if_False)
    ultimately show ?thesis using False by (simp only: if_False ebind.simps) blast
  qed
  then obtain rho where f4: "(if 1 - q < 0 then Inr 0.02
            else ebind (py_div 1 mm) (\<lambda>inv_m.
                 ebind (py_sqrt (1 - q)) (\<lambda>rt. Inr (inv_m * (1 - rt))))) = (Inr rho :: error + real)"
    by blast
  have "\<exists>As_min. (if fy (self_material s) < 420 then Inr (0.0020 * (1000 * h))
            else ebind (py_div (0.0018 * 420) (fy (self_material s))) (\<lambda>r.
                 Inr (max (r * (1000 * h)) (0.0014 * (1000 * h))))) = (Inr As_min :: error + real)
          \<and> 0 < As_min"
  proof (cases "fy (self_material s) < 420")
    case True
    have "0 < 0.0020 * (1000 * h)" using h by simp
    with True show ?thesis by (simp only: if_True) blast
  next
    case False
    have p: "py_div (0.0018 * 420) (fy (self_material s)) = Inr (0.0018 * 420 / fy (self_material s))"
      using m(2) by (rule py_div_nonzero)
    have "0 < 0.0014 * (1000 * h)" using h by simp
    then have "0 < max (0.0018 * 420 / fy (self_material s) * (1000 * h)) (0.0014 * (1000 * h))"
      by (rule less_max_iff_disj[THEN iffD2, OF disjI2])
    with False show ?thesis by (simp only: if_False p ebind.simps) blast
  qed
  then obtain As_min where f5: "(if fy (self_material s) < 420 then Inr (0.0020 * (1000 * h))
            else ebind (py_div (0.0018 * 420) (fy (self_material s))) (\<lambda>r.
                 Inr (max (r * (1000 * h)) (0.0014 * (1000 * h))))) = (Inr As_min :: error + real)"
     and pos: "0 < As_min"
    by blast
  have "As_min \<le> max (rho * 1000 * d) As_min" by (rule max.cobounded2)
  with pos have fin: "max (rho * 1000 * d) As_min \<noteq> 0" by linarith
  define spacing_req where "spacing_req = 1000 * area (self_main_bar s) / max (rho * 1000 * d) As_min"
  have f6: "py_div (1000 * area (self_main_bar s)) (max (rho * 1000 * d) As_min) = Inr spacing_req"
    unfolding spacing_req_def using fin by (rule py_div_nonzero)
  define sf where "sf = max 75 (\<lfloor>min spacing_req (min (3 * h) 450) / 25\<rfloor> * 25)"
  have "(75::int) \<le> sf" unfolding sf_def by (rule max.cobounded1)
  then have "real_of_int sf \<noteq> 0" by simp
  then have f7: "py_div (1000 * area (self_main_bar s)) (real_of_int sf)
               = Inr (1000 * area (self_main_bar s) / real_of_int sf)"
    by (rule py_div_nonzero)
  have nm: "(Mu \<le> 0) = False" using False by simp
  show ?thesis
    unfolding calculate_required_steel_def Let_def
    by (simp only: nm if_False ebind.simps d h num_of_def option.case option.distinct
          f1 f2 f3 f4 f5 f6 sf_def[symmetric] f7) blast
qed

lemma calculate_required_steel_frame:
  assumes "calculate_required_steel s Mu loc = Inr (res, s')" and "self_d s = Some d"
  shows "s' = s"
  using assms unfolding calculate_required_steel_def Let_def
  apply (simp only: option.distinct if_False ebind.simps)
  apply (simp only: split: if_splits)
   apply (simp only: sum.inject prod.inject)
  apply ((erule ebindE, (simp only: py_div_Inr_iff num_of_Inr_iff option.inject)?)+)
  apply (simp only: sum.inject prod.inject)
  done

lemma calculate_required_steel_no_depth:
  assumes "self_d s = None" and "self_h s = Some h"
  shows "calculate_required_steel s Mu loc =
         calculate_required_steel
           (s\<lparr>self_d := Some (h - cover (self_material s) - diameter (self_main_bar s) / 2)\<rparr>)
           Mu loc"
proof -
  define s1 where
    "s1 = s\<lparr>self_d := Some (h - cover (self_material s) - diameter (self_main_bar s) / 2)\<rparr>"
  have 1: "calculate_effective_depth s =
        Inr (h - cover (self_material s) - diameter (self_main_bar s) / 2, s1)"
    using assms by (simp add: calculate_effective_depth_def num_of_def Let_def s1_def)
  have 2: "self_d s1 = Some (h - cover (self_material s) - diameter (self_main_bar s) / 2)"
    by (simp add: s1_def)
  show ?thesis
    unfolding s1_def[symmetric] calculate_required_steel_def
    by (simp only: assms(1) 1 2 if_True if_False ebind.simps prod.case option.distinct simp_thms)
qed

lemma design_loop_frame:
  assumes "design_loop s ms = Inr s'" and "self_d s = Some d"
  shows "\<exists>R. s' = s\<lparr>self_reinforcement := R\<rparr>"
  using assms
proof (induction ms arbitrary: s)
  case Nil
  then have "s' = s\<lparr>self_reinforcement := self_reinforcement s\<rparr>" by simp
  then show ?case by blast
next
  case (Cons p ms)
  obtain location Mu where p: "p = (location, Mu)" by (cases p)
  from Cons.prems(1) obtain res s1 where
    c: "calculate_required_steel s Mu location = Inr (res, s1)" and
    r: "(case res of
           Some r \<Rightarrow> design_loop (s1\<lparr>self_reinforcement :=
                             AList.update location r (self_reinforcement s1)\<rparr>) ms
         | None \<Rightarrow> design_loop s1 ms) = Inr s'"
    by (auto simp: p ebind_Inr_iff)
  from c Cons.prems(2) have s1: "s1 = s" by (rule calculate_required_steel_frame)
  show ?case
  proof (cases res)
    case None
    with r s1 have "design_loop s ms = Inr s'" by simp
    then show ?thesis using Cons.prems(2) by (rule Cons.IH)
  next
    case (Some r')
    with r s1 have "design_loop (s\<lparr>self_reinforcement :=
                             AList.update location r' (self_reinforcement s)\<rparr>) ms = Inr s'"
      by simp
    moreover have "self_d (s\<lparr>self_reinforcement :=
                             AList.update location r' (self_reinforcement s)\<rparr>) = Some d"
      using Cons.prems(2) by simp
    ultimately obtain R where "s' = s\<lparr>self_reinforcement :=
                             AList.update location r' (self_reinforcement s)\<rparr>\<lparr>self_reinforcement := R\<rparr>"
      using Cons.IH by blast
    then have "s' = s\<lparr>self_reinforcement := R\<rparr>" by simp
    then show ?thesis by blast
  qed
qed

lemma design_loop_returns:
  assumes "self_d s = Some d" "d \<noteq> 0" "self_h s = Some h" "0 < h"
      and "fc_prime (self_material s) \<noteq> 0" "fy (self_material s) \<noteq> 0"
  shows "\<exists>R. design_loop s ms = Inr (s\<lparr>self_reinforcement := R\<rparr>)"
  using assms
proof (induction ms arbitrary: s)
  case Nil
  have "design_loop s [] = Inr (s\<lparr>self_reinforcement := self_reinforcement s\<rparr>)" by simp
  then show ?case by blast
next
  case (Cons p ms)
  obtain location Mu where p: "p = (location, Mu)" by (cases p)
  obtain res where c: "calculate_required_steel s Mu location = Inr (res, s)"
    using calculate_required_steel_returns[OF Cons.prems] by blast
  define s1 where "s1 = (case res of None \<Rightarrow> s
      | Some r \<Rightarrow> s\<lparr>self_reinforcement := AList.update location r (self_reinforcement s)\<rparr>)"
  have step: "design_loop s (p # ms) = design_loop s1 ms"
    by (cases res) (simp_all add: p c s1_def)
  have inv: "self_d s1 = Some d" "self_h s1 = Some h"
       "fc_prime (self_material s1) \<noteq> 0" "fy (self_material s1) \<noteq> 0"
    using Cons.prems by (cases res; simp add: s1_def)+
  obtain R where "design_loop s1 ms = Inr (s1\<lparr>self_reinforcement := R\<rparr>)"
    using Cons.IH[OF inv(1) Cons.prems(2) inv(2) Cons.prems(4) inv(3,4)] by blast
  moreover have "s1\<lparr>self_reinforcement := R\<rparr> = s\<lparr>self_reinforcement := R\<rparr>"
    by (cases res) (simp_all add: s1_def)
  ultimately show ?case using step by auto
qed

subsection \<open>Flexural reinforcement sizer: spacing\<close>

lemma spacing_floor_facts:
  fixes c :: real
  defines "sf \<equiv> max 75 (\<lfloor>c / 25\<rfloor> * 25)"
  shows "25 dvd sf" and "75 \<le> sf" and "real_of_int sf \<le> max 75 c"
    and "75 \<le> c \<Longrightarrow> real_of_int sf \<le> c" and "c < 75 \<Longrightarrow> sf = 75"
proof -
  have fl: "real_of_int (\<lfloor>c / 25\<rfloor> * 25) \<le> c"
    using of_int_floor_le[of "c / 25"] by simp
  show "25 dvd sf" unfolding sf_def max_def by simp
  show "75 \<le> sf" unfolding sf_def by simp
  show "real_of_int sf \<le> max 75 c" using fl unfolding sf_def max_def by auto
  show "75 \<le> c \<Longrightarrow> real_of_int sf \<le> c" using fl unfolding sf_def max_def by auto
  show "c < 75 \<Longrightarrow> sf = 75"
  proof -
    assume "c < 75"
    then have "c / 25 < 3" by simp
    then have "\<lfloor>c / 25\<rfloor> < 3" by (simp add: floor_less_iff)
    then show "sf = 75" unfolding sf_def max_def by simp
  qed
qed

text \<open>
  Claim C3 (amended). Every flexural result, which exists only for a design moment
  greater than 0, has \<open>spacing_req = 1000 * bar_area / As_final\<close>, the candidate
  \<open>spacing_max = min (spacing_req, 3 * thickness, 450)\<close> and
  \<open>spacing_final = max (75, floor (spacing_max / 25) * 25)\<close>. So the final spacing is a
  multiple of 25 mm and at least 75 mm; it is at most the candidate when the candidate is
  at least 75 mm, and it is 75 mm, above the candidate, when the candidate is below 75 mm.
\<close>

theorem flexural_spacing_rule:
  assumes "calculate_required_steel s Mu loc = Inr (Some r, s')" and "self_h s = Some h"
  shows "0 < Mu
       \<and> fl_spacing_req r = 1000 * area (self_main_bar s) / fl_As_final r
       \<and> fl_spacing_max r = min (fl_spacing_req r) (min (3 * h) 450)
       \<and> fl_spacing_final r = max 75 (\<lfloor>fl_spacing_max r / 25\<rfloor> * 25)
       \<and> 25 dvd fl_spacing_final r
       \<and> 75 \<le> fl_spacing_final r
       \<and> real_of_int (fl_spacing_final r) \<le> max 75 (fl_spacing_max r)
       \<and> (if 75 \<le> fl_spacing_max r then real_of_int (fl_spacing_final r) \<le> fl_spacing_max r
          else fl_spacing_final r = 75)"
proof -
  have "\<exists>s1 d. calculate_required_steel s1 Mu loc = Inr (Some r, s') \<and> self_h s1 = Some h
          \<and> self_d s1 = Some d \<and> self_main_bar s1 = self_main_bar s"
  proof (cases "self_d s")
    case None
    then show ?thesis
      using assms calculate_required_steel_no_depth[OF None assms(2), of Mu loc]
      by (intro exI[of _ "s\<lparr>self_d := Some (h - cover (self_material s) - diameter (self_main_bar s) / 2)\<rparr>"]) simp
  next
    case (Some d)
    then show ?thesis using assms by blast
  qed
  then obtain s1 d where 1: "calculate_required_steel s1 Mu loc = Inr (Some r, s')"
     and 2: "self_h s1 = Some h" and 3: "self_d s1 = Some d"
     and 4: "self_main_bar s1 = self_main_bar s"
    by blast
  note e = calculate_required_steel_elim[OF 1 2 3]
  have sf: "fl_spacing_final r = max 75 (\<lfloor>fl_spacing_max r / 25\<rfloor> * 25)" using e by blast
  have "c < 75" if "\<not> 75 \<le> c" for c :: real using that by simp
  then show ?thesis
    using e 4 spacing_floor_facts[of "fl_spacing_max r"] unfolding sf[symmetric]
    by (simp only: simp_thms if_split) blast
qed

lemma scenario_A_sized_fields:
  "self_h scenario_A_sized = Some 180" "self_d scenario_A_sized = Some 153.65"
  "self_material scenario_A_sized = default_material"
  "self_main_bar scenario_A_sized = bar13"
  by (simp_all add: scenario_A_sized_def scenario_A_def new_slab_def)

text \<open>
  The bound by the candidate fails for a heavy moment: with the default slab (thickness
  180 mm, effective depth 153.65 mm, bars #13) and a moment of 300 kN m the steel ratio is
  capped at 0.02, the candidate spacing is 129000 / 3073 (about 42 mm) and the final
  spacing is the floor value 75 mm.
\<close>

theorem flexural_spacing_above_candidate:
  "calculate_required_steel scenario_A_sized 300 ''Positive Moment (Midspan)'' =
     Inr (Some \<lparr>fl_location = ''Positive Moment (Midspan)'',
                fl_Mu = 300,
                fl_Rn = 300 * 1000000 / (0.9 * 1000 * 153.65 ^ 2),
                fl_rho = 0.02,
                fl_As_req = 3073,
                fl_As_min = 324,
                fl_As_final = 3073,
                fl_As_prov = 1720,
                fl_spacing_req = 129000 / 3073,
                fl_spacing_max = 129000 / 3073,
                fl_spacing_final = 75,
                fl_bar_size = ''#13'',
                fl_bar_area = 129\<rparr>, scenario_A_sized)
   \<and> \<not> (real_of_int 75 \<le> min (129000 / 3073) (min (3 * 180) 450))"
  by (simp add: calculate_required_steel_def scenario_A_sized_fields default_material_def
        bar13_def num_of_def py_div_def py_sqrt_def Let_def power2_eq_square)

text \<open>An instance below the cap: the discriminant is 0.81, the final spacing 125 mm.\<close>

theorem flexural_spacing_rule_witness:
  "calculate_required_steel scenario_A_sized (192162301821 / 4000000000)
       ''Positive Moment (Midspan)'' =
     Inr (Some \<lparr>fl_location = ''Positive Moment (Midspan)'',
                fl_Mu = 192162301821 / 4000000000,
                fl_Rn = 2.261,
                fl_rho = 17 / 3000,
                fl_As_req = 52241 / 60,
                fl_As_min = 324,
                fl_As_final = 52241 / 60,
                fl_As_prov = 1032,
                fl_spacing_req = 7740000 / 52241,
                fl_spacing_max = 7740000 / 52241,
                fl_spacing_final = 125,
                fl_bar_size = ''#13'',
                fl_bar_area = 129\<rparr>, scenario_A_sized)
   \<and> (25::int) dvd 125 \<and> (75::int) \<le> 125 \<and> real_of_int 125 \<le> 7740000 / 52241"
proof -
  have ev: "calculate_required_steel scenario_A_sized (192162301821 / 4000000000)
       ''Positive Moment (Midspan)'' =
     Inr (Some \<lparr>fl_location = ''Positive Moment (Midspan)'',
                fl_Mu = 192162301821 / 4000000000,
                fl_Rn = 2.261,
                fl_rho = 17 / 3000,
                fl_As_req = 52241 / 60,
                fl_As_min = 324,
                fl_As_final = 52241 / 60,
                fl_As_prov = 1032,
                fl_spacing_req = 7740000 / 52241,
                fl_spacing_max = 7740000 / 52241,
                fl_spacing_final = 125,
                fl_bar_size = ''#13'',
                fl_bar_area = 129\<rparr>, scenario_A_sized)"
    by (simp add: calculate_required_steel_def scenario_A_sized_fields default_material_def
        bar13_def num_of_def py_div_def py_sqrt_def Let_def power2_eq_square real_sqrt_divide)
  show ?thesis
    using flexural_spacing_rule [OF ev scenario_A_sized_fields(1)] ev
    by simp
qed

subsection \<open>Thickness selector\<close>

lemma round_up_to_ten:
  fixes x :: real
  assumes "0 < x"
  shows "0 < \<lceil>x / 10\<rceil> * 10" and "x \<le> real_of_int (\<lceil>x / 10\<rceil> * 10)"
    and "real_of_int (\<lceil>x / 10\<rceil> * 10) < x + 10"
proof -
  have "0 < x / 10" using assms by simp
  then have "0 < \<lceil>x / 10\<rceil>" by (simp add: less_ceiling_iff)
  then show "0 < \<lceil>x / 10\<rceil> * 10" by simp
  have "x / 10 \<le> real_of_int \<lceil>x / 10\<rceil>" by (rule le_of_int_ceiling)
  then have "x \<le> 10 * real_of_int \<lceil>x / 10\<rceil>" by linarith
  then show "x \<le> real_of_int (\<lceil>x / 10\<rceil> * 10)" by (simp add: mult.commute)
  have "real_of_int \<lceil>x / 10\<rceil> < x / 10 + 1" by linarith
  then have "10 * real_of_int \<lceil>x / 10\<rceil> < x + 10" by linarith
  then show "real_of_int (\<lceil>x / 10\<rceil> * 10) < x + 10" by (simp add: mult.commute)
qed

text \<open>
  Claim C5 (amended). For a positive clear span and each support condition, with its
  divisor (simply supported 20, one end continuous 24, both ends continuous 28,
  cantilever 10), the computed minimum is span / divisor rounded up to the next multiple
  of 10 mm, a positive multiple of 10, and it is the resolved thickness when no override
  is given. A nonzero override is always the resolved thickness, and exactly one advisory
  note is appended when it is below the computed minimum (none otherwise). An override of
  0 is falsy and is treated as no override: the resolved thickness is the computed minimum.
\<close>

theorem thickness_selector:
  assumes "0 < clear_span"
      and "(sc, c) \<in> {(''simply_supported'', 20), (''one_end_continuous'', 24),
                      (''both_ends_continuous'', 28), (''cantilever'', 10)}"
  shows "\<exists>hr::int. hr = \<lceil>clear_span / c / 10\<rceil> * 10
       \<and> 0 < hr \<and> 10 dvd hr
       \<and> clear_span / c \<le> real_of_int hr \<and> real_of_int hr < clear_span / c + 10
       \<and> calculate_initial_thickness s clear_span sc None
           = Inr (real_of_int hr, s\<lparr>self_h := Some (real_of_int hr)\<rparr>)
       \<and> (\<forall>ut. ut \<noteq> 0 \<longrightarrow>
             calculate_initial_thickness s clear_span sc (Some ut)
               = Inr (ut, if ut < real_of_int hr
                          then s\<lparr>self_notes := self_notes s @ [Warning_below_minimum ut hr],
                                 self_h := Some ut\<rparr>
                          else s\<lparr>self_h := Some ut\<rparr>))
       \<and> calculate_initial_thickness s clear_span sc (Some 0)
           = Inr (real_of_int hr, s\<lparr>self_h := Some (real_of_int hr)\<rparr>)"
proof -
  have c: "0 < c" and g: "dict_get THICKNESS_COEFFICIENTS sc = Inr c"
    using assms(2) by (auto simp: thickness_coefficient_simps)
  then have x: "0 < clear_span / c" using assms(1) by simp
  have d: "py_div clear_span c = Inr (clear_span / c)" using c by (simp add: py_div_def)
  show ?thesis
    using round_up_to_ten[OF x]
    by (simp add: calculate_initial_thickness_def g d Let_def)
qed

theorem thickness_selector_witness:
  "calculate_initial_thickness scenario_A 3500 ''simply_supported'' None
     = Inr (180, scenario_A\<lparr>self_h := Some 180\<rparr>)
   \<and> calculate_initial_thickness scenario_A 3500 ''simply_supported'' (Some 100)
     = Inr (100, scenario_A\<lparr>self_notes := [Warning_below_minimum 100 180], self_h := Some 100\<rparr>)
   \<and> calculate_initial_thickness scenario_A 3500 ''simply_supported'' (Some 200)
     = Inr (200, scenario_A\<lparr>self_h := Some 200\<rparr>)
   \<and> calculate_initial_thickness scenario_A 1500 ''cantilever'' None
     = Inr (150, scenario_A\<lparr>self_h := Some 150\<rparr>)"
  using thickness_selector [of 3500 "''simply_supported''" 20 scenario_A]
        thickness_selector [of 1500 "''cantilever''" 10 scenario_A]
  by (simp add: scenario_A_def new_slab_def)

text \<open>An override of 0 mm is supplied, and the resolved thickness is 180 mm.\<close>

theorem thickness_override_zero_ignored:
  "calculate_initial_thickness scenario_A 3500 ''simply_supported'' (Some 0)
     = Inr (180, scenario_A\<lparr>self_h := Some 180\<rparr>)
   \<and> self_h (scenario_A\<lparr>self_h := Some 180\<rparr>) \<noteq> Some 0"
  by (simp add: calculate_initial_thickness_def thickness_coefficient_simps py_div_def Let_def)

subsection \<open>Shrinkage sizer and shear checker in closed form\<close>

lemma calculate_shrinkage_steel_eq:
  assumes "self_h s = Some h"
  shows "calculate_shrinkage_steel s =
    (let Ag = 1000 * h;
         As_sh_req = (if fy (self_material s) < 420 then 0.0020 * Ag
                      else 0.0018 * 420 / fy (self_material s) * Ag)
     in if As_sh_req = 0 then Inl ZeroDivisionError
        else let spacing_req = 1000 * area (self_shrinkage_bar s) / As_sh_req;
                 spacing_max = min spacing_req (min (5 * h) 450);
                 spacing_final = \<lfloor>spacing_max / 25\<rfloor> * 25
             in if spacing_final = 0 then Inl ZeroDivisionError
                else Inr \<lparr>sh_As_req = As_sh_req,
                          sh_As_prov = 1000 * area (self_shrinkage_bar s) / of_int spacing_final,
                          sh_spacing_req = spacing_req,
                          sh_spacing_max = spacing_max,
                          sh_spacing_final = spacing_final,
                          sh_bar_size = bar_size (self_shrinkage_bar s),
                          sh_bar_area = area (self_shrinkage_bar s)\<rparr>)"
proof (cases "fy (self_material s) < 420")
  case True
  then show ?thesis
    unfolding calculate_shrinkage_steel_def Let_def
    by (simp only: assms num_of_def option.case ebind.simps if_True py_div_def of_int_eq_0_iff
          if_distrib[of "\<lambda>m. ebind m _"] cong: if_cong)
next
  case False
  then have nz: "(fy (self_material s) = 0) = False" by auto
  then have "fy (self_material s) \<noteq> 0" by simp
  then have p: "py_div (0.0018 * 420) (fy (self_material s))
             = Inr (0.0018 * 420 / fy (self_material s))"
    by (rule py_div_nonzero)
  from False show ?thesis
    unfolding calculate_shrinkage_steel_def Let_def
    by (simp only: assms num_of_def option.case ebind.simps if_False nz p py_div_def of_int_eq_0_iff
          if_distrib[of "\<lambda>m. ebind m _"] cong: if_cong)
qed

lemma check_shear_eq:
  assumes "self_d s = Some d" and "self_wu s = Some wu" and "0 \<le> fc_prime (self_material s)"
  shows "check_shear s =
    (let L_n = self_clear_span s / 1000;
         d_m = d / 1000;
         Vu0 =
          (if self_support_condition s = ''simply_supported'' then wu * (L_n / 2 - d_m)
           else if self_support_condition s = ''one_end_continuous'' then
             max (wu * (L_n / 2 - d_m)) (wu * (0.575 * L_n - d_m))
           else if self_support_condition s = ''both_ends_continuous'' then wu * (L_n / 2 - d_m)
           else if self_support_condition s = ''cantilever'' then wu * L_n
           else wu * (L_n / 2));
         Vu = max Vu0 0;
         Vc = 0.17 * 1.0 * sqrt (fc_prime (self_material s)) * 1000 * d / 1000;
         phiVc = 0.75 * Vc
     in Inr \<lparr>sv_Vu = Vu,
             sv_Vc = Vc,
             sv_phiVc = phiVc,
             sv_utilization = (if phiVc > 0 then (Vu / phiVc) * 100 else 0),
             sv_status = (if Vu \<le> phiVc then PASS else FAIL)\<rparr>)"
proof -
  have "\<not> fc_prime (self_material s) < 0" using assms(3) by simp
  then have q: "py_sqrt (fc_prime (self_material s)) = Inr (sqrt (fc_prime (self_material s)))"
    by (simp only: py_sqrt_def if_False)
  show ?thesis
    unfolding check_shear_def Let_def
    by (simp only: assms(1,2) num_of_def option.case ebind.simps q)
qed

lemma check_shear_ValueError:
  assumes "self_d s = Some d" and "self_wu s = Some wu" and "fc_prime (self_material s) < 0"
  shows "check_shear s = Inl ValueError"
  unfolding check_shear_def Let_def
  by (simp only: assms num_of_def option.case ebind.simps py_sqrt_def if_True)

subsection \<open>The stages of the complete design\<close>

lemma design_stages:
  assumes "calculate_initial_thickness s0 (self_clear_span s0) (self_support_condition s0)
             (self_user_h s0) = Inr (h, s1)"
      and "calculate_factored_load s1 = Inr ((wu, total_dead, self_weight), s2)"
      and "calculate_moments s2 = Inr (moments, s3)"
      and "calculate_effective_depth s3 = Inr (d, s4)"
      and "design_loop (s4\<lparr>self_reinforcement := []\<rparr>) (self_moments s4) = Inr s5"
  shows "design s0 =
    ebind (calculate_shrinkage_steel s5) (\<lambda>sh.
    ebind (check_shear (s5\<lparr>self_shrinkage := Some sh\<rparr>)) (\<lambda>sv.
    Inr (\<lparr>res_thickness = self_h s5,
          res_effective_depth = self_d s5,
          res_factored_load = self_wu s5,
          res_self_weight = self_weight,
          res_total_dead = total_dead,
          res_moments = self_moments s5,
          res_reinforcement = self_reinforcement s5,
          res_shrinkage = Some sh,
          res_shear = Some sv,
          res_notes = self_notes s5\<rparr>,
         s5\<lparr>self_shrinkage := Some sh, self_shear := Some sv\<rparr>)))"
  by (simp add: design_def assms Let_def)

lemma calculate_shrinkage_steel_cong:
  "calculate_shrinkage_steel (s\<lparr>self_reinforcement := R\<rparr>) = calculate_shrinkage_steel s"
  by (simp add: calculate_shrinkage_steel_def cong: if_cong)

lemma check_shear_cong:
  "check_shear (s\<lparr>self_reinforcement := R, self_shrinkage := S\<rparr>) = check_shear s"
  by (simp add: check_shear_def cong: if_cong)

subsection \<open>Load combiner and the default design\<close>

lemma scenario_A_stages:
  "calculate_initial_thickness scenario_A (self_clear_span scenario_A)
      (self_support_condition scenario_A) (self_user_h scenario_A)
     = Inr (180, scenario_A\<lparr>self_h := Some 180\<rparr>)"
  "calculate_factored_load (scenario_A\<lparr>self_h := Some 180\<rparr>)
     = Inr ((12, 6, 4.5), scenario_A\<lparr>self_h := Some 180, self_wu := Some 12\<rparr>)"
  "calculate_moments (scenario_A\<lparr>self_h := Some 180, self_wu := Some 12\<rparr>)
     = Inr ([(''Positive Moment (Midspan)'', 18.375)],
            scenario_A\<lparr>self_h := Some 180, self_wu := Some 12,
                       self_moments := [(''Positive Moment (Midspan)'', 18.375)]\<rparr>)"
  "calculate_effective_depth
     (scenario_A\<lparr>self_h := Some 180, self_wu := Some 12,
                 self_moments := [(''Positive Moment (Midspan)'', 18.375)]\<rparr>)
     = Inr (153.65, scenario_A_sized)"
     apply (simp add: scenario_A_def new_slab_def calculate_initial_thickness_def
        thickness_coefficient_simps py_div_def Let_def)
    apply (simp add: scenario_A_def new_slab_def calculate_factored_load_def num_of_def
        default_material_def default_loads_def Let_def)
   apply (simp add: scenario_A_def new_slab_def calculate_moments_def num_of_def
        moment_coefficient_simps Let_def power2_eq_square)
  apply (simp add: scenario_A_def scenario_A_sized_def new_slab_def calculate_effective_depth_def
        num_of_def default_material_def bar13_def Let_def)
  done

lemma design_after_depth:
  assumes st: "calculate_initial_thickness s0 (self_clear_span s0) (self_support_condition s0)
             (self_user_h s0) = Inr (h, s1)"
        "calculate_factored_load s1 = Inr ((wu, total_dead, self_weight), s2)"
        "calculate_moments s2 = Inr (moments, s3)"
        "calculate_effective_depth s3 = Inr (d, s4)"
      and inv: "self_d s4 = Some d" "d \<noteq> 0" "self_h s4 = Some hh" "0 < hh"
        "fc_prime (self_material s4) \<noteq> 0" "fy (self_material s4) \<noteq> 0"
  shows "\<exists>R. design s0 =
    ebind (calculate_shrinkage_steel s4) (\<lambda>sh.
    ebind (check_shear s4) (\<lambda>sv.
    Inr (\<lparr>res_thickness = Some hh,
          res_effective_depth = Some d,
          res_factored_load = self_wu s4,
          res_self_weight = self_weight,
          res_total_dead = total_dead,
          res_moments = self_moments s4,
          res_reinforcement = R,
          res_shrinkage = Some sh,
          res_shear = Some sv,
          res_notes = self_notes s4\<rparr>,
         s4\<lparr>self_reinforcement := R, self_shrinkage := Some sh, self_shear := Some sv\<rparr>)))"
proof -
  let ?s = "s4\<lparr>self_reinforcement := []\<rparr>"
  have "\<exists>R. design_loop ?s (self_moments s4) = Inr (?s\<lparr>self_reinforcement := R\<rparr>)"
    by (rule design_loop_returns[of ?s d hh]) (use inv in simp_all)
  then obtain R where
    loop: "design_loop ?s (self_moments s4) = Inr (s4\<lparr>self_reinforcement := R\<rparr>)"
    by auto
  show ?thesis
    by (rule exI[of _ R])
       (simp add: design_stages[OF st loop] calculate_shrinkage_steel_cong check_shear_cong inv)
qed

lemma scenario_A_sized_more:
  "self_wu scenario_A_sized = Some 12"
  "self_moments scenario_A_sized = [(''Positive Moment (Midspan)'', 18.375)]"
  "self_notes scenario_A_sized = []"
  "self_shrinkage_bar scenario_A_sized = bar13"
  "self_clear_span scenario_A_sized = 3500"
  "self_support_condition scenario_A_sized = ''simply_supported''"
  by (simp_all add: scenario_A_sized_def scenario_A_def new_slab_def)

lemma scenario_A_shrinkage:
  "calculate_shrinkage_steel scenario_A_sized =
     Inr \<lparr>sh_As_req = 324, sh_As_prov = 344, sh_spacing_req = 129000 / 324,
          sh_spacing_max = 129000 / 324, sh_spacing_final = 375,
          sh_bar_size = ''#13'', sh_bar_area = 129\<rparr>"
  by (simp add: calculate_shrinkage_steel_eq[OF scenario_A_sized_fields(1)]
        scenario_A_sized_fields scenario_A_sized_more default_material_def bar13_def Let_def)

lemma scenario_A_design:
  "\<exists>R sv s'. design scenario_A =
     Inr (\<lparr>res_thickness = Some 180,
           res_effective_depth = Some 153.65,
           res_factored_load = Some 12,
           res_self_weight = 4.5,
           res_total_dead = 6,
           res_moments = [(''Positive Moment (Midspan)'', 18.375)],
           res_reinforcement = R,
           res_shrinkage = Some \<lparr>sh_As_req = 324, sh_As_prov = 344,
             sh_spacing_req = 129000 / 324, sh_spacing_max = 129000 / 324,
             sh_spacing_final = 375, sh_bar_size = ''#13'', sh_bar_area = 129\<rparr>,
           res_shear = Some sv,
           res_notes = []\<rparr>, s')"
proof -
  have fc: "0 \<le> fc_prime (self_material scenario_A_sized)"
    by (simp add: scenario_A_sized_fields default_material_def)
  obtain sv where sv: "check_shear scenario_A_sized = Inr sv"
    using check_shear_eq[OF scenario_A_sized_fields(2) scenario_A_sized_more(1) fc]
    by (simp add: Let_def)
  obtain R where "design scenario_A =
    ebind (calculate_shrinkage_steel scenario_A_sized) (\<lambda>sh.
    ebind (check_shear scenario_A_sized) (\<lambda>sv.
    Inr (\<lparr>res_thickness = Some 180,
          res_effective_depth = Some 153.65,
          res_factored_load = self_wu scenario_A_sized,
          res_self_weight = 4.5,
          res_total_dead = 6,
          res_moments = self_moments scenario_A_sized,
          res_reinforcement = R,
          res_shrinkage = Some sh,
          res_shear = Some sv,
          res_notes = self_notes scenario_A_sized\<rparr>,
         scenario_A_sized\<lparr>self_reinforcement := R, self_shrinkage := Some sh,
                          self_shear := Some sv\<rparr>)))"
    using design_after_depth[OF scenario_A_stages scenario_A_sized_fields(2) _
            scenario_A_sized_fields(1)]
    by (auto simp: scenario_A_sized_fields default_material_def)
  then show ?thesis
    by (simp add: scenario_A_shrinkage sv scenario_A_sized_more)
qed

text \<open>
  Claim C6. \<^verbatim>\<open>calculate_factored_load\<close> computes self-weight = (thickness / 1000) *
  density, total dead = superimposed dead + self-weight and
  wu = 1.2 * total dead + 1.6 * live load. For Scenario A (clear span 3500 mm, simply
  supported, density 25, cover 20, dead 1.5, live 3.0, bars #13, no override)
  \<^verbatim>\<open>design\<close> returns a result with thickness 180 mm, self-weight 4.5, wu = 12.0 and the
  single moment "Positive Moment (Midspan)" = 18.375.
\<close>

theorem factored_load_and_scenario_A:
  "(self_h s = Some h \<longrightarrow>
      calculate_factored_load s =
        Inr ((1.2 * (superimposed_dead (self_loads s)
                       + (h / 1000) * concrete_density (self_material s))
                + 1.6 * live_load (self_loads s),
              superimposed_dead (self_loads s) + (h / 1000) * concrete_density (self_material s),
              (h / 1000) * concrete_density (self_material s)),
             s\<lparr>self_wu := Some (1.2 * (superimposed_dead (self_loads s)
                                       + (h / 1000) * concrete_density (self_material s))
                                + 1.6 * live_load (self_loads s))\<rparr>))
   \<and> (\<exists>r s'. design scenario_A = Inr (r, s')
          \<and> res_thickness r = Some 180
          \<and> res_self_weight r = 4.5
          \<and> res_factored_load r = Some 12
          \<and> res_moments r = [(''Positive Moment (Midspan)'', 18.375)])"
proof -
  obtain R sv s' where "design scenario_A =
     Inr (\<lparr>res_thickness = Some 180,
           res_effective_depth = Some 153.65,
           res_factored_load = Some 12,
           res_self_weight = 4.5,
           res_total_dead = 6,
           res_moments = [(''Positive Moment (Midspan)'', 18.375)],
           res_reinforcement = R,
           res_shrinkage = Some \<lparr>sh_As_req = 324, sh_As_prov = 344,
             sh_spacing_req = 129000 / 324, sh_spacing_max = 129000 / 324,
             sh_spacing_final = 375, sh_bar_size = ''#13'', sh_bar_area = 129\<rparr>,
           res_shear = Some sv,
           res_notes = []\<rparr>, s')"
    using scenario_A_design by blast
  then have "\<exists>r s'. design scenario_A = Inr (r, s')
          \<and> res_thickness r = Some 180
          \<and> res_self_weight r = 4.5
          \<and> res_factored_load r = Some 12
          \<and> res_moments r = [(''Positive Moment (Midspan)'', 18.375)]"
    by simp
  then show ?thesis
    by (simp add: calculate_factored_load_def num_of_def Let_def)
qed

theorem factored_load_and_scenario_A_witness:
  "calculate_factored_load (scenario_A\<lparr>self_h := Some 180\<rparr>)
     = Inr ((12, 6, 4.5), scenario_A\<lparr>self_h := Some 180, self_wu := Some 12\<rparr>)"
  using factored_load_and_scenario_A [of "scenario_A\<lparr>self_h := Some 180\<rparr>" 180]
  by (simp add: scenario_A_def new_slab_def default_material_def default_loads_def)

subsection \<open>Division by zero in the shrinkage sizer\<close>

lemma thick_slab_stages:
  "calculate_initial_thickness thick_slab (self_clear_span thick_slab)
      (self_support_condition thick_slab) (self_user_h thick_slab)
     = Inr (1500, thick_slab\<lparr>self_h := Some 1500\<rparr>)"
  "calculate_factored_load (thick_slab\<lparr>self_h := Some 1500\<rparr>)
     = Inr ((51.6, 39, 37.5), thick_slab\<lparr>self_h := Some 1500, self_wu := Some 51.6\<rparr>)"
  "calculate_moments (thick_slab\<lparr>self_h := Some 1500, self_wu := Some 51.6\<rparr>)
     = Inr ([(''Positive Moment (Midspan)'', 79.0125)],
            thick_slab\<lparr>self_h := Some 1500, self_wu := Some 51.6,
                       self_moments := [(''Positive Moment (Midspan)'', 79.0125)]\<rparr>)"
  "calculate_effective_depth
     (thick_slab\<lparr>self_h := Some 1500, self_wu := Some 51.6,
                 self_moments := [(''Positive Moment (Midspan)'', 79.0125)]\<rparr>)
     = Inr (1473.65,
            thick_slab\<lparr>self_h := Some 1500, self_wu := Some 51.6,
                       self_moments := [(''Positive Moment (Midspan)'', 79.0125)],
                       self_d := Some 1473.65\<rparr>)"
     apply (simp add: thick_slab_def new_slab_def calculate_initial_thickness_def
        thickness_coefficient_simps py_div_def Let_def)
    apply (simp add: thick_slab_def new_slab_def calculate_factored_load_def num_of_def
        default_material_def default_loads_def Let_def)
   apply (simp add: thick_slab_def new_slab_def calculate_moments_def num_of_def
        moment_coefficient_simps Let_def power2_eq_square)
  apply (simp add: thick_slab_def new_slab_def calculate_effective_depth_def
        num_of_def default_material_def bar13_def Let_def)
  done

text \<open>
  Claim C10. For the thick slab every stated precondition holds (span, f'c and fy
  positive, catalog bars, effective depth 1473.65 mm), yet the required shrinkage spacing
  1000 * 71 / 3000 is below 25 mm, so \<open>spacing_final = floor (candidate / 25) * 25 = 0\<close>,
  the provided-area computation divides by zero, and \<^verbatim>\<open>design\<close> raises
  \<^verbatim>\<open>ZeroDivisionError\<close> instead of returning a result.
\<close>

theorem shrinkage_division_by_zero:
  "BarProperties_init ''#13'' = Inr (self_main_bar thick_slab)
   \<and> BarProperties_init ''#10'' = Inr (self_shrinkage_bar thick_slab)
   \<and> 0 < self_clear_span thick_slab
   \<and> 0 < fc_prime (self_material thick_slab)
   \<and> 0 < fy (self_material thick_slab)
   \<and> (1000 * area (self_shrinkage_bar thick_slab) / (0.0020 * (1000 * 1500)) :: real) = 71 / 3
   \<and> \<lfloor>min (71 / 3) (min (5 * 1500) 450) / (25::real)\<rfloor> * 25 = 0
   \<and> calculate_shrinkage_steel
         (thick_slab\<lparr>self_h := Some 1500, self_wu := Some 51.6,
                     self_moments := [(''Positive Moment (Midspan)'', 79.0125)],
                     self_d := Some 1473.65\<rparr>) = Inl ZeroDivisionError
   \<and> design thick_slab = Inl ZeroDivisionError"
proof -
  let ?s4 = "thick_slab\<lparr>self_h := Some 1500, self_wu := Some 51.6,
                     self_moments := [(''Positive Moment (Midspan)'', 79.0125)],
                     self_d := Some 1473.65\<rparr>"
  have h: "self_h ?s4 = Some 1500" and d: "self_d ?s4 = Some 1473.65" by simp_all
  have f: "self_material thick_slab = default_material\<lparr>fy := 400\<rparr>"
    "self_shrinkage_bar thick_slab = bar10"
    by (simp_all add: thick_slab_def new_slab_def)
  have sh: "calculate_shrinkage_steel ?s4 = Inl ZeroDivisionError"
    unfolding calculate_shrinkage_steel_eq[OF h]
    by (simp add: f Let_def default_material_def bar10_def)
  obtain R where "design thick_slab =
    ebind (calculate_shrinkage_steel ?s4) (\<lambda>sh.
    ebind (check_shear ?s4) (\<lambda>sv.
    Inr (\<lparr>res_thickness = Some 1500,
          res_effective_depth = Some 1473.65,
          res_factored_load = self_wu ?s4,
          res_self_weight = 37.5,
          res_total_dead = 39,
          res_moments = self_moments ?s4,
          res_reinforcement = R,
          res_shrinkage = Some sh,
          res_shear = Some sv,
          res_notes = self_notes ?s4\<rparr>,
         ?s4\<lparr>self_reinforcement := R, self_shrinkage := Some sh, self_shear := Some sv\<rparr>)))"
    using design_after_depth[OF thick_slab_stages d _ h]
    by (auto simp: thick_slab_def new_slab_def default_material_def)
  then have "design thick_slab = Inl ZeroDivisionError"
    by (simp only: sh ebind.simps)
  then show ?thesis
    using sh
    by (simp add: thick_slab_def new_slab_def default_material_def bar10_def bar13_def
          BarProperties_init_def BAR_DATA_def)
qed

subsection \<open>What each stage changes\<close>

lemma thickness_branches_frame:
  assumes "(case ut of
         Some u \<Rightarrow>
           if u \<noteq> 0 then
             (if u < X then Inr (u, s\<lparr>self_notes := N1 u, self_h := Some u\<rparr>)
              else Inr (u, s\<lparr>self_h := Some u\<rparr>))
           else Inr (Y, s\<lparr>self_h := Some Y\<rparr>)
       | None \<Rightarrow> Inr (Y, s\<lparr>self_h := Some Y\<rparr>)) = (Inr (h, s1) :: error + real \<times> slab)"
  shows "\<exists>N. s1 = s\<lparr>self_notes := N, self_h := Some h\<rparr>"
proof -
  have *: "\<exists>N. s\<lparr>self_h := Some x\<rparr> = s\<lparr>self_notes := N, self_h := Some x\<rparr>" for x
    by (rule exI[of _ "self_notes s"]) simp
  show ?thesis
  proof (cases ut)
    case None
    with assms have "s1 = s\<lparr>self_h := Some h\<rparr>" by auto
    then show ?thesis using * by simp
  next
    case (Some u)
    show ?thesis
    proof (cases "u \<noteq> 0 \<and> u < X")
      case True
      with assms Some have "s1 = s\<lparr>self_notes := N1 u, self_h := Some h\<rparr>" by auto
      then show ?thesis by (rule exI)
    next
      case False
      with assms Some have "s1 = s\<lparr>self_h := Some h\<rparr>" by (cases "u = 0") auto
      then show ?thesis using * by simp
    qed
  qed
qed

lemma calculate_initial_thickness_frame:
  assumes "calculate_initial_thickness s cs sc ut = Inr (h, s1)"
  shows "\<exists>N. s1 = s\<lparr>self_notes := N, self_h := Some h\<rparr>"
  using assms unfolding calculate_initial_thickness_def Let_def
  apply -
  apply (erule ebindE)
  apply (erule ebindE)
  apply (erule thickness_branches_frame)
  done

lemma calculate_factored_load_frame:
  assumes "calculate_factored_load s = Inr ((wu, td, sw), s2)"
  shows "s2 = s\<lparr>self_wu := Some wu\<rparr>"
  using assms unfolding calculate_factored_load_def Let_def
  apply -
  apply (erule ebindE)
  apply auto
  done

lemma calculate_moments_frame:
  assumes "calculate_moments s = Inr (ms, s3)"
  shows "s3 = s\<lparr>self_moments := ms\<rparr>"
proof -
  obtain wu where wu: "self_wu s = Some wu"
    using assms unfolding calculate_moments_def Let_def
    by (cases "self_wu s") (simp_all add: num_of_def)
  consider "self_support_condition s = ''simply_supported''"
    | "self_support_condition s = ''one_end_continuous''"
    | "self_support_condition s = ''both_ends_continuous''"
    | "self_support_condition s = ''cantilever''"
    | "self_support_condition s \<notin> {''simply_supported'', ''one_end_continuous'',
         ''both_ends_continuous'', ''cantilever''}"
    by blast
  then show ?thesis
    using assms wu
    by cases (auto simp: calculate_moments_def num_of_def Let_def moment_coefficient_simps)
qed

lemma design_elim:
  assumes "design s0 = Inr (r, s')"
  shows "\<exists>h N wu ms R sh sv.
           self_h s' = Some h \<and>
           self_d s' = Some (h - cover (self_material s0) - diameter (self_main_bar s0) / 2) \<and>
           s' = s0\<lparr>self_notes := N, self_h := self_h s', self_wu := Some wu,
                   self_moments := ms, self_d := self_d s', self_reinforcement := R,
                   self_shrinkage := Some sh, self_shear := Some sv\<rparr> \<and>
           calculate_initial_thickness s0 (self_clear_span s0) (self_support_condition s0)
             (self_user_h s0) = Inr (h, s0\<lparr>self_notes := N, self_h := Some h\<rparr>) \<and>
           res_thickness r = self_h s' \<and> res_effective_depth r = self_d s' \<and>
           res_factored_load r = Some wu \<and> res_moments r = ms \<and>
           res_reinforcement r = R \<and> res_shrinkage r = Some sh \<and> res_shear r = Some sv \<and>
           res_notes r = N"
proof -
  from assms obtain h s1 wu td sw s2 ms s3 d s4 s5 sh sv where
    1: "calculate_initial_thickness s0 (self_clear_span s0) (self_support_condition s0)
             (self_user_h s0) = Inr (h, s1)" and
    2: "calculate_factored_load s1 = Inr ((wu, td, sw), s2)" and
    3: "calculate_moments s2 = Inr (ms, s3)" and
    4: "calculate_effective_depth s3 = Inr (d, s4)" and
    5: "design_loop (s4\<lparr>self_reinforcement := []\<rparr>) (self_moments s4) = Inr s5" and
    6: "calculate_shrinkage_steel s5 = Inr sh" and
    7: "check_shear (s5\<lparr>self_shrinkage := Some sh\<rparr>) = Inr sv" and
    r: "r = \<lparr>res_thickness = self_h s5,
          res_effective_depth = self_d s5,
          res_factored_load = self_wu s5,
          res_self_weight = sw,
          res_total_dead = td,
          res_moments = self_moments s5,
          res_reinforcement = self_reinforcement s5,
          res_shrinkage = Some sh,
          res_shear = Some sv,
          res_notes = self_notes s5\<rparr>" and
    s': "s' = s5\<lparr>self_shrinkage := Some sh, self_shear := Some sv\<rparr>"
    unfolding design_def Let_def
    by (auto simp: ebind_Inr_iff)
  obtain N where s1: "s1 = s0\<lparr>self_notes := N, self_h := Some h\<rparr>"
    using calculate_initial_thickness_frame[OF 1] by blast
  have s2: "s2 = s1\<lparr>self_wu := Some wu\<rparr>" by (rule calculate_factored_load_frame[OF 2])
  have s3: "s3 = s2\<lparr>self_moments := ms\<rparr>" by (rule calculate_moments_frame[OF 3])
  have h3: "self_h s3 = Some h" by (simp add: s1 s2 s3)
  have s4: "s4 = s3\<lparr>self_d := Some d\<rparr>"
    and d: "d = h - cover (self_material s3) - diameter (self_main_bar s3) / 2"
    using 4 h3 by (auto simp: calculate_effective_depth_Inr_iff)
  have "self_d (s4\<lparr>self_reinforcement := []\<rparr>) = Some d" by (simp add: s4)
  from design_loop_frame[OF 5 this] obtain R where
    s5: "s5 = s4\<lparr>self_reinforcement := R\<rparr>" by auto
  show ?thesis
    apply (rule exI[of _ h], rule exI[of _ N], rule exI[of _ wu], rule exI[of _ ms],
           rule exI[of _ R], rule exI[of _ sh], rule exI[of _ sv])
    using 1 by (simp add: r s' s5 s4 d s3 s2 s1)
qed

subsection \<open>Effective depth\<close>

lemma scenario_D_stages:
  "calculate_initial_thickness scenario_D (self_clear_span scenario_D)
      (self_support_condition scenario_D) (self_user_h scenario_D)
     = Inr (50, scenario_D\<lparr>self_notes := [Warning_below_minimum 50 180], self_h := Some 50\<rparr>)"
  "calculate_factored_load
     (scenario_D\<lparr>self_notes := [Warning_below_minimum 50 180], self_h := Some 50\<rparr>)
     = Inr ((8.1, 2.75, 1.25),
            scenario_D\<lparr>self_notes := [Warning_below_minimum 50 180], self_h := Some 50,
                       self_wu := Some 8.1\<rparr>)"
  "calculate_moments
     (scenario_D\<lparr>self_notes := [Warning_below_minimum 50 180], self_h := Some 50,
                 self_wu := Some 8.1\<rparr>)
     = Inr ([(''Positive Moment (Midspan)'', 12.403125)],
            scenario_D\<lparr>self_notes := [Warning_below_minimum 50 180], self_h := Some 50,
                       self_wu := Some 8.1,
                       self_moments := [(''Positive Moment (Midspan)'', 12.403125)]\<rparr>)"
  "calculate_effective_depth
     (scenario_D\<lparr>self_notes := [Warning_below_minimum 50 180], self_h := Some 50,
                 self_wu := Some 8.1,
                 self_moments := [(''Positive Moment (Midspan)'', 12.403125)]\<rparr>)
     = Inr (- 2.7,
            scenario_D\<lparr>self_notes := [Warning_below_minimum 50 180], self_h := Some 50,
                       self_wu := Some 8.1,
                       self_moments := [(''Positive Moment (Midspan)'', 12.403125)],
                       self_d := Some (- 2.7)\<rparr>)"
     apply (simp add: scenario_D_def new_slab_def calculate_initial_thickness_def
        thickness_coefficient_simps py_div_def Let_def)
    apply (simp add: scenario_D_def new_slab_def calculate_factored_load_def num_of_def
        default_material_def default_loads_def Let_def)
   apply (simp add: scenario_D_def new_slab_def calculate_moments_def num_of_def
        moment_coefficient_simps Let_def power2_eq_square)
  apply (simp add: scenario_D_def new_slab_def calculate_effective_depth_def
        num_of_def default_material_def bar25_def Let_def)
  done

lemma scenario_D_design:
  "\<exists>R sv s'. design scenario_D =
     Inr (\<lparr>res_thickness = Some 50,
           res_effective_depth = Some (- 2.7),
           res_factored_load = Some 8.1,
           res_self_weight = 1.25,
           res_total_dead = 2.75,
           res_moments = [(''Positive Moment (Midspan)'', 12.403125)],
           res_reinforcement = R,
           res_shrinkage = Some \<lparr>sh_As_req = 90, sh_As_prov = 516,
             sh_spacing_req = 129000 / 90, sh_spacing_max = 250,
             sh_spacing_final = 250, sh_bar_size = ''#13'', sh_bar_area = 129\<rparr>,
           res_shear = Some sv,
           res_notes = [Warning_below_minimum 50 180]\<rparr>, s')"
proof -
  let ?s4 = "scenario_D\<lparr>self_notes := [Warning_below_minimum 50 180], self_h := Some 50,
                       self_wu := Some 8.1,
                       self_moments := [(''Positive Moment (Midspan)'', 12.403125)],
                       self_d := Some (- 2.7)\<rparr>"
  have h: "self_h ?s4 = Some 50" and d: "self_d ?s4 = Some (- 2.7)"
    and wu: "self_wu ?s4 = Some 8.1" by simp_all
  have f: "self_material scenario_D = default_material\<lparr>cover := 40\<rparr>"
    "self_shrinkage_bar scenario_D = bar13"
    by (simp_all add: scenario_D_def new_slab_def)
  have fc: "0 \<le> fc_prime (self_material ?s4)" by (simp add: f default_material_def)
  have sh: "calculate_shrinkage_steel ?s4 =
      Inr \<lparr>sh_As_req = 90, sh_As_prov = 516,
             sh_spacing_req = 129000 / 90, sh_spacing_max = 250,
             sh_spacing_final = 250, sh_bar_size = ''#13'', sh_bar_area = 129\<rparr>"
    unfolding calculate_shrinkage_steel_eq[OF h]
    by (simp add: f Let_def default_material_def bar13_def)
  obtain sv where sv: "check_shear ?s4 = Inr sv"
    using check_shear_eq[OF d wu fc] by (simp add: Let_def)
  obtain R where "design scenario_D =
    ebind (calculate_shrinkage_steel ?s4) (\<lambda>sh.
    ebind (check_shear ?s4) (\<lambda>sv.
    Inr (\<lparr>res_thickness = Some 50,
          res_effective_depth = Some (- 2.7),
          res_factored_load = self_wu ?s4,
          res_self_weight = 1.25,
          res_total_dead = 2.75,
          res_moments = self_moments ?s4,
          res_reinforcement = R,
          res_shrinkage = Some sh,
          res_shear = Some sv,
          res_notes = self_notes ?s4\<rparr>,
         ?s4\<lparr>self_reinforcement := R, self_shrinkage := Some sh, self_shear := Some sv\<rparr>)))"
    using design_after_depth[OF scenario_D_stages d _ h]
    by (auto simp: f default_material_def)
  then show ?thesis
    by (simp only: sh sv ebind.simps) (simp add: exI)
qed

text \<open>
  Claim C1 (amended). \<^verbatim>\<open>design\<close> performs no feasibility check on the effective depth:
  every result it returns carries the resolved thickness and
  effective depth = thickness - cover - main bar diameter / 2, whatever its sign; a
  negative effective depth is carried through the remaining stages and returned.
\<close>

theorem design_effective_depth_unchecked:
  assumes "design s0 = Inr (r, s')"
  shows "\<exists>h. res_thickness r = Some h
           \<and> res_effective_depth r
               = Some (h - cover (self_material s0) - diameter (self_main_bar s0) / 2)"
  using design_elim[OF assms] by auto

theorem design_effective_depth_unchecked_witness:
  "\<exists>r s'. design scenario_A = Inr (r, s')
      \<and> res_thickness r = Some 180
      \<and> res_effective_depth r = Some (180 - 20 - 12.7 / 2)"
proof -
  obtain r s' where d: "design scenario_A = Inr (r, s')" and t: "res_thickness r = Some 180"
    using scenario_A_design by fastforce
  from design_effective_depth_unchecked[OF d] t
  have "res_effective_depth r = Some (180 - 20 - 12.7 / 2)"
    by (simp add: scenario_A_def new_slab_def default_material_def bar13_def)
  with d t show ?thesis by blast
qed

text \<open>
  Scenario D of the specification (thickness 50 mm, cover 40 mm, main bar diameter
  25.4 mm): the effective depth is -2.7 mm and \<^verbatim>\<open>design\<close> returns a result.
\<close>

theorem design_returns_negative_depth:
  "(50 - cover (self_material scenario_D) - diameter (self_main_bar scenario_D) / 2 \<le> 0)
   \<and> (\<exists>r s'. design scenario_D = Inr (r, s')
          \<and> res_thickness r = Some 50
          \<and> res_effective_depth r = Some (- 2.7))"
proof -
  have "\<exists>r s'. design scenario_D = Inr (r, s')
          \<and> res_thickness r = Some 50
          \<and> res_effective_depth r = Some (- 2.7)"
    using scenario_D_design by fastforce
  then show ?thesis
    by (simp add: scenario_D_def new_slab_def default_material_def bar25_def)
qed

subsection \<open>Input validation\<close>

lemma negative_fy_stages:
  "calculate_initial_thickness negative_fy_slab (self_clear_span negative_fy_slab)
      (self_support_condition negative_fy_slab) (self_user_h negative_fy_slab)
     = Inr (180, negative_fy_slab\<lparr>self_h := Some 180\<rparr>)"
  "calculate_factored_load (negative_fy_slab\<lparr>self_h := Some 180\<rparr>)
     = Inr ((12, 6, 4.5), negative_fy_slab\<lparr>self_h := Some 180, self_wu := Some 12\<rparr>)"
  "calculate_moments (negative_fy_slab\<lparr>self_h := Some 180, self_wu := Some 12\<rparr>)
     = Inr ([(''Positive Moment (Midspan)'', 18.375)],
            negative_fy_slab\<lparr>self_h := Some 180, self_wu := Some 12,
                       self_moments := [(''Positive Moment (Midspan)'', 18.375)]\<rparr>)"
  "calculate_effective_depth
     (negative_fy_slab\<lparr>self_h := Some 180, self_wu := Some 12,
                 self_moments := [(''Positive Moment (Midspan)'', 18.375)]\<rparr>)
     = Inr (153.65,
            negative_fy_slab\<lparr>self_h := Some 180, self_wu := Some 12,
                 self_moments := [(''Positive Moment (Midspan)'', 18.375)],
                 self_d := Some 153.65\<rparr>)"
     apply (simp add: negative_fy_slab_def new_slab_def calculate_initial_thickness_def
        thickness_coefficient_simps py_div_def Let_def)
    apply (simp add: negative_fy_slab_def new_slab_def calculate_factored_load_def num_of_def
        default_material_def default_loads_def Let_def)
   apply (simp add: negative_fy_slab_def new_slab_def calculate_moments_def num_of_def
        moment_coefficient_simps Let_def power2_eq_square)
  apply (simp add: negative_fy_slab_def new_slab_def calculate_effective_depth_def
        num_of_def default_material_def bar13_def Let_def)
  done

lemma negative_fy_design:
  "\<exists>R sv s'. design negative_fy_slab =
     Inr (\<lparr>res_thickness = Some 180,
           res_effective_depth = Some 153.65,
           res_factored_load = Some 12,
           res_self_weight = 4.5,
           res_total_dead = 6,
           res_moments = [(''Positive Moment (Midspan)'', 18.375)],
           res_reinforcement = R,
           res_shrinkage = Some \<lparr>sh_As_req = 360, sh_As_prov = 2580 / 7,
             sh_spacing_req = 129000 / 360, sh_spacing_max = 129000 / 360,
             sh_spacing_final = 350, sh_bar_size = ''#13'', sh_bar_area = 129\<rparr>,
           res_shear = Some sv,
           res_notes = []\<rparr>, s')"
proof -
  let ?s4 = "negative_fy_slab\<lparr>self_h := Some 180, self_wu := Some 12,
                 self_moments := [(''Positive Moment (Midspan)'', 18.375)],
                 self_d := Some 153.65\<rparr>"
  have h: "self_h ?s4 = Some 180" and d: "self_d ?s4 = Some 153.65"
    and wu: "self_wu ?s4 = Some 12" by simp_all
  have f: "self_material negative_fy_slab = default_material\<lparr>fy := - 420\<rparr>"
    "self_shrinkage_bar negative_fy_slab = bar13" "self_notes negative_fy_slab = []"
    by (simp_all add: negative_fy_slab_def new_slab_def)
  have fc: "0 \<le> fc_prime (self_material ?s4)" by (simp add: f default_material_def)
  have sh: "calculate_shrinkage_steel ?s4 =
      Inr \<lparr>sh_As_req = 360, sh_As_prov = 2580 / 7,
             sh_spacing_req = 129000 / 360, sh_spacing_max = 129000 / 360,
             sh_spacing_final = 350, sh_bar_size = ''#13'', sh_bar_area = 129\<rparr>"
    unfolding calculate_shrinkage_steel_eq[OF h]
    by (simp add: f Let_def default_material_def bar13_def)
  obtain sv where sv: "check_shear ?s4 = Inr sv"
    using check_shear_eq[OF d wu fc] by (simp add: Let_def)
  obtain R where "design negative_fy_slab =
    ebind (calculate_shrinkage_steel ?s4) (\<lambda>sh.
    ebind (check_shear ?s4) (\<lambda>sv.
    Inr (\<lparr>res_thickness = Some 180,
          res_effective_depth = Some 153.65,
          res_factored_load = self_wu ?s4,
          res_self_weight = 4.5,
          res_total_dead = 6,
          res_moments = self_moments ?s4,
          res_reinforcement = R,
          res_shrinkage = Some sh,
          res_shear = Some sv,
          res_notes = self_notes ?s4\<rparr>,
         ?s4\<lparr>self_reinforcement := R, self_shrinkage := Some sh, self_shear := Some sv\<rparr>)))"
    using design_after_depth[OF negative_fy_stages d _ h]
    by (auto simp: f default_material_def)
  then show ?thesis
    by (simp only: sh sv ebind.simps) (simp add: f exI)
qed

text \<open>
  Claim C2 (amended). Only the bar name is validated: \<^verbatim>\<open>BarProperties\<close> raises
  \<^verbatim>\<open>ValueError\<close> exactly for a name that is not one of the nine catalog entries, before
  \<^verbatim>\<open>design\<close> can be called, and for a catalog name it returns that entry. The engine does
  not validate clear span, f'c or fy.
\<close>

theorem bar_name_validated:
  "(BarProperties_init bs = Inl ValueError \<longleftrightarrow>
      bs \<notin> {''#10'', ''#13'', ''#16'', ''#19'', ''#22'', ''#25'', ''#29'', ''#32'', ''#36''})
   \<and> (BarProperties_init bs \<noteq> Inl ValueError \<longrightarrow>
        (\<exists>dia ar. map_of BAR_DATA bs = Some (dia, ar)
           \<and> BarProperties_init bs = Inr \<lparr>bar_size = bs, diameter = dia, area = ar\<rparr>))
   \<and> length BAR_DATA = 9 \<and> distinct (map fst BAR_DATA)"
proof -
  have k: "dom (map_of BAR_DATA)
      = {''#10'', ''#13'', ''#16'', ''#19'', ''#22'', ''#25'', ''#29'', ''#32'', ''#36''}"
    by (simp add: BAR_DATA_def dom_map_of_conv_image_fst)
  have 1: "BarProperties_init bs = Inl ValueError \<longleftrightarrow> bs \<notin> dom (map_of BAR_DATA)"
    by (cases "map_of BAR_DATA bs") (auto simp: BarProperties_init_def)
  have 2: "BarProperties_init bs \<noteq> Inl ValueError \<longrightarrow>
        (\<exists>dia ar. map_of BAR_DATA bs = Some (dia, ar)
           \<and> BarProperties_init bs = Inr \<lparr>bar_size = bs, diameter = dia, area = ar\<rparr>)"
    by (cases "map_of BAR_DATA bs") (auto simp: BarProperties_init_def)
  have 3: "length BAR_DATA = 9 \<and> distinct (map fst BAR_DATA)"
    by (simp add: BAR_DATA_def)
  show ?thesis using 1 2 3 unfolding k by blast
qed

theorem bar_name_validated_witness:
  "BarProperties_init ''#14'' = Inl ValueError
   \<and> BarProperties_init ''#13'' = Inr bar13
   \<and> BarProperties_init ''#36'' = Inr \<lparr>bar_size = ''#36'', diameter = 35.8, area = 1006\<rparr>"
  using bar_name_validated [of "''#14''"] bar_name_validated [of "''#13''"]
        bar_name_validated [of "''#36''"]
  by (auto simp: BAR_DATA_def bar13_def)

text \<open>
  With fy = -420 MPa, a non-positive yield strength, \<^verbatim>\<open>design\<close> raises nothing and
  returns a complete result.
\<close>

theorem design_accepts_negative_fy:
  "fy (self_material negative_fy_slab) \<le> 0
   \<and> (\<exists>r s'. design negative_fy_slab = Inr (r, s')
         \<and> res_thickness r = Some 180
         \<and> res_moments r = [(''Positive Moment (Midspan)'', 18.375)]
         \<and> map_option sh_spacing_final (res_shrinkage r) = Some 350)"
proof -
  have "\<exists>r s'. design negative_fy_slab = Inr (r, s')
         \<and> res_thickness r = Some 180
         \<and> res_moments r = [(''Positive Moment (Midspan)'', 18.375)]
         \<and> map_option sh_spacing_final (res_shrinkage r) = Some 350"
    using negative_fy_design by fastforce
  then show ?thesis
    by (simp add: negative_fy_slab_def new_slab_def default_material_def)
qed

subsection \<open>Shrinkage reinforcement sizer\<close>

text \<open>
  Claim C8. Every result of \<^verbatim>\<open>calculate_shrinkage_steel\<close> has
  \<open>As_req = 0.0020 * Ag\<close> when fy < 420 and \<open>0.0018 * 420 / fy * Ag\<close> otherwise, with
  \<open>Ag = 1000 * thickness\<close>, \<open>spacing_req = 1000 * bar_area / As_req\<close>, the candidate
  \<open>min (spacing_req, 5 * thickness, 450)\<close> and the final spacing
  \<open>floor (candidate / 25) * 25\<close>: a multiple of 25 mm, at most the candidate, with no
  lower floor of 75 mm. A result is produced whenever the thickness and fy are positive
  and the candidate is at least 25 mm.
\<close>

theorem shrinkage_spacing_rule:
  assumes "self_h s = Some h"
  shows "(\<forall>r. calculate_shrinkage_steel s = Inr r \<longrightarrow>
            sh_As_req r = (if fy (self_material s) < 420 then 0.0020 * (1000 * h)
                           else 0.0018 * 420 / fy (self_material s) * (1000 * h))
          \<and> sh_spacing_req r = 1000 * area (self_shrinkage_bar s) / sh_As_req r
          \<and> sh_spacing_max r = min (sh_spacing_req r) (min (5 * h) 450)
          \<and> sh_spacing_final r = \<lfloor>sh_spacing_max r / 25\<rfloor> * 25
          \<and> 25 dvd sh_spacing_final r
          \<and> real_of_int (sh_spacing_final r) \<le> sh_spacing_max r)
       \<and> (0 < h \<and> 0 < fy (self_material s)
           \<and> 25 \<le> min (1000 * area (self_shrinkage_bar s)
                           / (if fy (self_material s) < 420 then 0.0020 * (1000 * h)
                              else 0.0018 * 420 / fy (self_material s) * (1000 * h)))
                         (min (5 * h) 450)
           \<longrightarrow> (\<exists>r. calculate_shrinkage_steel s = Inr r))"
proof -
  define As where "As = (if fy (self_material s) < 420 then 0.0020 * (1000 * h)
                           else 0.0018 * 420 / fy (self_material s) * (1000 * h))"
  define c where "c = min (1000 * area (self_shrinkage_bar s) / As) (min (5 * h) 450)"
  have eq: "calculate_shrinkage_steel s =
     (if As = 0 then Inl ZeroDivisionError
      else if \<lfloor>c / 25\<rfloor> * 25 = 0 then Inl ZeroDivisionError
      else Inr \<lparr>sh_As_req = As,
                sh_As_prov = 1000 * area (self_shrinkage_bar s) / of_int (\<lfloor>c / 25\<rfloor> * 25),
                sh_spacing_req = 1000 * area (self_shrinkage_bar s) / As,
                sh_spacing_max = c,
                sh_spacing_final = \<lfloor>c / 25\<rfloor> * 25,
                sh_bar_size = bar_size (self_shrinkage_bar s),
                sh_bar_area = area (self_shrinkage_bar s)\<rparr>)"
    unfolding calculate_shrinkage_steel_eq[OF assms] Let_def As_def c_def ..
  have fl: "real_of_int (\<lfloor>c / 25\<rfloor> * 25) \<le> c"
    using of_int_floor_le[of "c / 25"] by simp
  have A: "\<forall>r. calculate_shrinkage_steel s = Inr r \<longrightarrow>
            sh_As_req r = As
          \<and> sh_spacing_req r = 1000 * area (self_shrinkage_bar s) / sh_As_req r
          \<and> sh_spacing_max r = min (sh_spacing_req r) (min (5 * h) 450)
          \<and> sh_spacing_final r = \<lfloor>sh_spacing_max r / 25\<rfloor> * 25
          \<and> 25 dvd sh_spacing_final r
          \<and> real_of_int (sh_spacing_final r) \<le> sh_spacing_max r"
    unfolding eq using fl by (auto simp: c_def split: if_splits)
  have B: "\<exists>r. calculate_shrinkage_steel s = Inr r"
    if "0 < h" "0 < fy (self_material s)" "25 \<le> c"
  proof -
    have "0 < As" using that(1,2) by (simp add: As_def)
    then have a: "(As = 0) = False" by simp
    have "1 \<le> \<lfloor>c / 25\<rfloor>" using that(3) by (simp add: le_floor_iff)
    then have "\<lfloor>c / 25\<rfloor> * 25 \<noteq> 0" by linarith
    then have b: "(\<lfloor>c / 25\<rfloor> * 25 = 0) = False" by (rule eq_False[THEN iffD2])
    show ?thesis unfolding eq by (simp only: a b if_False) blast
  qed
  show ?thesis using A B unfolding As_def c_def by blast
qed

theorem shrinkage_spacing_rule_witness:
  "calculate_shrinkage_steel
     (scenario_A_sized\<lparr>self_h := Some 600, self_material := default_material\<lparr>fy := 400\<rparr>,
                       self_shrinkage_bar := bar10\<rparr>)
     = Inr \<lparr>sh_As_req = 1200, sh_As_prov = 1420, sh_spacing_req = 71000 / 1200,
            sh_spacing_max = 71000 / 1200, sh_spacing_final = 50,
            sh_bar_size = ''#10'', sh_bar_area = 71\<rparr>
   \<and> (25::int) dvd 50 \<and> real_of_int 50 \<le> 71000 / 1200 \<and> (50::int) < 75"
proof -
  let ?s = "scenario_A_sized\<lparr>self_h := Some 600, self_material := default_material\<lparr>fy := 400\<rparr>,
                       self_shrinkage_bar := bar10\<rparr>"
  have h: "self_h ?s = Some 600" by simp
  have "\<exists>r. calculate_shrinkage_steel ?s = Inr r"
    using shrinkage_spacing_rule[OF h]
    by (simp add: default_material_def bar10_def)
  then obtain r where r: "calculate_shrinkage_steel ?s = Inr r" by blast
  have ev: "calculate_shrinkage_steel ?s
     = Inr \<lparr>sh_As_req = 1200, sh_As_prov = 1420, sh_spacing_req = 71000 / 1200,
            sh_spacing_max = 71000 / 1200, sh_spacing_final = 50,
            sh_bar_size = ''#10'', sh_bar_area = 71\<rparr>"
    unfolding calculate_shrinkage_steel_eq[OF h]
    by (simp add: Let_def default_material_def bar10_def)
  with r shrinkage_spacing_rule[OF h] show ?thesis by simp
qed

subsection \<open>Shear checker\<close>

text \<open>
  Claim C7 (amended). For f'c at least 0 (\<^verbatim>\<open>math.sqrt\<close> raises otherwise),
  \<^verbatim>\<open>check_shear\<close> returns a record in which Vu is \<open>wu * (span_m / 2 - d_m)\<close> for simply
  supported and both ends continuous, the larger of that and
  \<open>wu * (0.575 * span_m - d_m)\<close> for one end continuous and \<open>wu * span_m\<close> for cantilever,
  clamped to at least 0; \<open>Vc = 0.17 * 1.0 * sqrt f'c * 1000 * d / 1000\<close> and
  \<open>\<phi>Vc = 0.75 * Vc\<close>; the utilization is \<open>Vu / \<phi>Vc * 100\<close> when \<open>\<phi>Vc > 0\<close> and exactly 0
  whenever \<open>\<phi>Vc \<le> 0\<close>, so no division by zero is performed; and the status is pass if
  and only if \<open>Vu \<le> \<phi>Vc\<close>.
\<close>

theorem shear_check_rule:
  assumes "self_d s = Some d" and "self_wu s = Some wu"
      and "0 \<le> fc_prime (self_material s)"
      and "self_support_condition s \<in> {''simply_supported'', ''one_end_continuous'',
             ''both_ends_continuous'', ''cantilever''}"
  shows "\<exists>r. check_shear s = Inr r
       \<and> sv_Vu r = max (if self_support_condition s = ''cantilever''
                         then wu * (self_clear_span s / 1000)
                       else if self_support_condition s = ''one_end_continuous''
                         then max (wu * (self_clear_span s / 1000 / 2 - d / 1000))
                                  (wu * (0.575 * (self_clear_span s / 1000) - d / 1000))
                       else wu * (self_clear_span s / 1000 / 2 - d / 1000)) 0
       \<and> 0 \<le> sv_Vu r
       \<and> sv_Vc r = 0.17 * 1.0 * sqrt (fc_prime (self_material s)) * 1000 * d / 1000
       \<and> sv_phiVc r = 0.75 * sv_Vc r
       \<and> sv_utilization r = (if 0 < sv_phiVc r then sv_Vu r / sv_phiVc r * 100 else 0)
       \<and> (sv_phiVc r = 0 \<longrightarrow> sv_utilization r = 0)
       \<and> (sv_status r = PASS \<longleftrightarrow> sv_Vu r \<le> sv_phiVc r)"
proof -
  consider (ss) "self_support_condition s = ''simply_supported''"
    | (oe) "self_support_condition s = ''one_end_continuous''"
    | (be) "self_support_condition s = ''both_ends_continuous''"
    | (ca) "self_support_condition s = ''cantilever''"
    using assms(4) by blast
  then show ?thesis
  proof cases
    case ss
    show ?thesis unfolding check_shear_eq[OF assms(1-3)] Let_def ss by simp
  next
    case oe
    show ?thesis unfolding check_shear_eq[OF assms(1-3)] Let_def oe by simp
  next
    case be
    show ?thesis unfolding check_shear_eq[OF assms(1-3)] Let_def be by simp
  next
    case ca
    show ?thesis unfolding check_shear_eq[OF assms(1-3)] Let_def ca by simp
  qed
qed

theorem shear_check_rule_witness:
  "\<exists>r. check_shear scenario_A_sized = Inr r
      \<and> sv_Vu r = 19.1562
      \<and> sv_Vc r = 0.17 * 1.0 * sqrt 28 * 1000 * 153.65 / 1000
      \<and> sv_phiVc r = 0.75 * sv_Vc r
      \<and> sv_utilization r = sv_Vu r / sv_phiVc r * 100
      \<and> sv_status r = PASS"
proof -
  have fc: "0 \<le> fc_prime (self_material scenario_A_sized)"
    and sc: "self_support_condition scenario_A_sized \<in> {''simply_supported'',
       ''one_end_continuous'', ''both_ends_continuous'', ''cantilever''}"
    by (simp_all add: scenario_A_sized_fields scenario_A_sized_more default_material_def)
  from shear_check_rule[OF scenario_A_sized_fields(2) scenario_A_sized_more(1) fc sc]
  obtain r where r: "check_shear scenario_A_sized = Inr r"
      "sv_Vu r = 19.1562"
      "sv_Vc r = 0.17 * 1.0 * sqrt 28 * 1000 * 153.65 / 1000"
      "sv_phiVc r = 0.75 * sv_Vc r"
      "sv_utilization r = (if 0 < sv_phiVc r then sv_Vu r / sv_phiVc r * 100 else 0)"
      "sv_status r = PASS \<longleftrightarrow> sv_Vu r \<le> sv_phiVc r"
    by (auto simp: scenario_A_sized_fields scenario_A_sized_more default_material_def)
  have s: "1 \<le> sqrt 28" by simp
  have "36488 \<le> 37315 * sqrt 28" using s by linarith
  then have "19.1562 \<le> 0.75 * (0.17 * 1.0 * sqrt 28 * 1000 * 153.65 / 1000)" by simp
  then have "sv_Vu r \<le> sv_phiVc r" "0 < sv_phiVc r" by (simp_all add: r)
  with r show ?thesis by (intro exI[of _ r]) simp
qed

text \<open>
  With the negative effective depth of Scenario D the capacity \<open>\<phi>Vc\<close> is negative, not 0,
  and the utilization is 0 rather than \<open>Vu / \<phi>Vc * 100\<close>.
\<close>

theorem shear_utilization_negative_capacity:
  "check_shear scenario_D_sized =
     Inr \<lparr>sv_Vu = 14.19687,
          sv_Vc = 0.17 * 1.0 * sqrt 28 * 1000 * (- 2.7) / 1000,
          sv_phiVc = 0.75 * (0.17 * 1.0 * sqrt 28 * 1000 * (- 2.7) / 1000),
          sv_utilization = 0,
          sv_status = FAIL\<rparr>
   \<and> 0.75 * (0.17 * 1.0 * sqrt 28 * 1000 * (- 2.7) / 1000) \<noteq> (0::real)
   \<and> 14.19687 / (0.75 * (0.17 * 1.0 * sqrt 28 * 1000 * (- 2.7) / 1000)) * 100 \<noteq> (0::real)"
proof -
  have f: "self_d scenario_D_sized = Some (- 2.7)" "self_wu scenario_D_sized = Some 8.1"
    "self_clear_span scenario_D_sized = 3500"
    "self_support_condition scenario_D_sized = ''simply_supported''"
    "fc_prime (self_material scenario_D_sized) = 28"
    by (simp_all add: scenario_D_sized_def scenario_D_def new_slab_def default_material_def)
  have fc: "0 \<le> fc_prime (self_material scenario_D_sized)" by (simp add: f)
  have p: "(0::real) < sqrt 28" by simp
  show ?thesis
    unfolding check_shear_eq[OF f(1,2) fc] Let_def f
    by simp (use p in linarith)
qed

subsection \<open>Calling design twice on one object\<close>

lemma override_design_from:
  fixes N :: "advisory list" and R0 S0 V0 h0 d0 wu0 ms0
  defines "t0 \<equiv> override_slab\<lparr>self_notes := N, self_h := h0, self_d := d0, self_wu := wu0,
             self_moments := ms0, self_reinforcement := R0, self_shrinkage := S0,
             self_shear := V0\<rparr>"
  defines "t4 \<equiv> override_slab\<lparr>self_notes := N @ [Warning_below_minimum 100 180],
             self_h := Some 100, self_d := Some 73.65, self_wu := Some 9.6,
             self_moments := [(''Positive Moment (Midspan)'', 14.7)],
             self_reinforcement := R0, self_shrinkage := S0, self_shear := V0\<rparr>"
  shows "\<exists>R sv. design t0 =
     Inr (\<lparr>res_thickness = Some 100,
           res_effective_depth = Some 73.65,
           res_factored_load = Some 9.6,
           res_self_weight = 2.5,
           res_total_dead = 4,
           res_moments = [(''Positive Moment (Midspan)'', 14.7)],
           res_reinforcement = R,
           res_shrinkage = Some \<lparr>sh_As_req = 180, sh_As_prov = 860 / 3,
             sh_spacing_req = 129000 / 180, sh_spacing_max = 450,
             sh_spacing_final = 450, sh_bar_size = ''#13'', sh_bar_area = 129\<rparr>,
           res_shear = Some sv,
           res_notes = N @ [Warning_below_minimum 100 180]\<rparr>,
          t4\<lparr>self_reinforcement := R,
             self_shrinkage := Some \<lparr>sh_As_req = 180, sh_As_prov = 860 / 3,
               sh_spacing_req = 129000 / 180, sh_spacing_max = 450,
               sh_spacing_final = 450, sh_bar_size = ''#13'', sh_bar_area = 129\<rparr>,
             self_shear := Some sv\<rparr>)"
proof -
  define t1 where "t1 = t0\<lparr>self_notes := N @ [Warning_below_minimum 100 180], self_h := Some 100\<rparr>"
  define t2 where "t2 = t1\<lparr>self_wu := Some 9.6\<rparr>"
  define t3 where "t3 = t2\<lparr>self_moments := [(''Positive Moment (Midspan)'', 14.7)]\<rparr>"
  have t4: "t4 = t3\<lparr>self_d := Some 73.65\<rparr>"
    by (simp add: t4_def t3_def t2_def t1_def t0_def)
  have st: "calculate_initial_thickness t0 (self_clear_span t0) (self_support_condition t0)
              (self_user_h t0) = Inr (100, t1)"
    "calculate_factored_load t1 = Inr ((9.6, 4, 2.5), t2)"
    "calculate_moments t2 = Inr ([(''Positive Moment (Midspan)'', 14.7)], t3)"
    "calculate_effective_depth t3 = Inr (73.65, t4)"
       apply (simp add: t1_def t0_def override_slab_def new_slab_def
          calculate_initial_thickness_def thickness_coefficient_simps py_div_def Let_def)
      apply (simp add: t2_def t1_def t0_def override_slab_def new_slab_def
          calculate_factored_load_def num_of_def default_material_def default_loads_def Let_def)
     apply (simp add: t3_def t2_def t1_def t0_def override_slab_def new_slab_def
          calculate_moments_def num_of_def moment_coefficient_simps Let_def power2_eq_square)
    apply (simp add: t4 t3_def t2_def t1_def t0_def override_slab_def new_slab_def
          calculate_effective_depth_def num_of_def default_material_def bar13_def Let_def)
    done
  have f: "self_h t4 = Some 100" "self_d t4 = Some 73.65" "self_wu t4 = Some 9.6"
    "self_material t4 = default_material" "self_shrinkage_bar t4 = bar13"
    "self_moments t4 = [(''Positive Moment (Midspan)'', 14.7)]"
    "self_notes t4 = N @ [Warning_below_minimum 100 180]"
    by (simp_all add: t4_def override_slab_def new_slab_def)
  have fc: "0 \<le> fc_prime (self_material t4)" by (simp add: f default_material_def)
  have sh: "calculate_shrinkage_steel t4 =
      Inr \<lparr>sh_As_req = 180, sh_As_prov = 860 / 3,
             sh_spacing_req = 129000 / 180, sh_spacing_max = 450,
             sh_spacing_final = 450, sh_bar_size = ''#13'', sh_bar_area = 129\<rparr>"
    unfolding calculate_shrinkage_steel_eq[OF f(1)]
    by (simp add: f Let_def default_material_def bar13_def)
  obtain sv where sv: "check_shear t4 = Inr sv"
    using check_shear_eq[OF f(2,3) fc] by (simp add: Let_def)
  obtain R where "design t0 =
    ebind (calculate_shrinkage_steel t4) (\<lambda>sh.
    ebind (check_shear t4) (\<lambda>sv.
    Inr (\<lparr>res_thickness = Some 100,
          res_effective_depth = Some 73.65,
          res_factored_load = self_wu t4,
          res_self_weight = 2.5,
          res_total_dead = 4,
          res_moments = self_moments t4,
          res_reinforcement = R,
          res_shrinkage = Some sh,
          res_shear = Some sv,
          res_notes = self_notes t4\<rparr>,
         t4\<lparr>self_reinforcement := R, self_shrinkage := Some sh, self_shear := Some sv\<rparr>)))"
    using design_after_depth[OF st f(2) _ f(1)]
    by (auto simp: f default_material_def)
  then have "design t0 =
     Inr (\<lparr>res_thickness = Some 100,
           res_effective_depth = Some 73.65,
           res_factored_load = Some 9.6,
           res_self_weight = 2.5,
           res_total_dead = 4,
           res_moments = [(''Positive Moment (Midspan)'', 14.7)],
           res_reinforcement = R,
           res_shrinkage = Some \<lparr>sh_As_req = 180, sh_As_prov = 860 / 3,
             sh_spacing_req = 129000 / 180, sh_spacing_max = 450,
             sh_spacing_final = 450, sh_bar_size = ''#13'', sh_bar_area = 129\<rparr>,
           res_shear = Some sv,
           res_notes = N @ [Warning_below_minimum 100 180]\<rparr>,
          t4\<lparr>self_reinforcement := R,
             self_shrinkage := Some \<lparr>sh_As_req = 180, sh_As_prov = 860 / 3,
               sh_spacing_req = 129000 / 180, sh_spacing_max = 450,
               sh_spacing_final = 450, sh_bar_size = ''#13'', sh_bar_area = 129\<rparr>,
             self_shear := Some sv\<rparr>)"
    by (simp only: sh sv ebind.simps f)
  then show ?thesis by blast
qed

text \<open>
  Claim C9 fails on the code. \<^verbatim>\<open>design\<close> resets \<^verbatim>\<open>self.reinforcement\<close> and overwrites every
  other accumulator, but it never resets \<^verbatim>\<open>self.notes\<close>. Called twice on one object whose
  override (100 mm) is below the minimum (180 mm), it returns the same thickness and
  moments both times, but one advisory note the first time and two the second.
\<close>

theorem design_twice_notes_accumulate:
  "\<exists>r1 s1 r2 s2. design override_slab = Inr (r1, s1) \<and> design s1 = Inr (r2, s2)
      \<and> res_thickness r1 = Some 100 \<and> res_thickness r2 = Some 100
      \<and> res_moments r1 = res_moments r2
      \<and> res_notes r1 = [Warning_below_minimum 100 180]
      \<and> res_notes r2 = [Warning_below_minimum 100 180, Warning_below_minimum 100 180]
      \<and> r1 \<noteq> r2"
proof -
  let ?W = "Warning_below_minimum 100 180"
  let ?SH = "\<lparr>sh_As_req = 180, sh_As_prov = 860 / 3,
             sh_spacing_req = 129000 / 180, sh_spacing_max = 450,
             sh_spacing_final = 450, sh_bar_size = ''#13'', sh_bar_area = 129\<rparr>"
  have e0: "override_slab = override_slab\<lparr>self_notes := [], self_h := None, self_d := None,
             self_wu := None, self_moments := [], self_reinforcement := [],
             self_shrinkage := None, self_shear := None\<rparr>"
    by (simp add: override_slab_def new_slab_def)
  obtain R1 sv1 r1 s1 where
    r1: "r1 = \<lparr>res_thickness = Some 100,
           res_effective_depth = Some 73.65,
           res_factored_load = Some 9.6,
           res_self_weight = 2.5,
           res_total_dead = 4,
           res_moments = [(''Positive Moment (Midspan)'', 14.7)],
           res_reinforcement = R1,
           res_shrinkage = Some ?SH,
           res_shear = Some sv1,
           res_notes = [] @ [?W]\<rparr>" and
    s1: "s1 = override_slab\<lparr>self_notes := [] @ [?W],
             self_h := Some 100, self_d := Some 73.65, self_wu := Some 9.6,
             self_moments := [(''Positive Moment (Midspan)'', 14.7)],
             self_reinforcement := [], self_shrinkage := None, self_shear := None\<rparr>
           \<lparr>self_reinforcement := R1, self_shrinkage := Some ?SH, self_shear := Some sv1\<rparr>" and
    d1: "design override_slab = Inr (r1, s1)"
    using override_design_from[where N="[]" and ?h0.0=None and ?d0.0=None and ?wu0.0=None and ?ms0.0="[]"
            and ?R0.0="[]" and ?S0.0=None and ?V0.0=None] e0
    by auto
  have e1: "s1 = override_slab\<lparr>self_notes := [?W], self_h := Some 100, self_d := Some 73.65,
             self_wu := Some 9.6, self_moments := [(''Positive Moment (Midspan)'', 14.7)],
             self_reinforcement := R1, self_shrinkage := Some ?SH, self_shear := Some sv1\<rparr>"
    by (simp add: s1)
  obtain r2 s2 R2 sv2 where
    r2: "r2 = \<lparr>res_thickness = Some 100,
           res_effective_depth = Some 73.65,
           res_factored_load = Some 9.6,
           res_self_weight = 2.5,
           res_total_dead = 4,
           res_moments = [(''Positive Moment (Midspan)'', 14.7)],
           res_reinforcement = R2,
           res_shrinkage = Some ?SH,
           res_shear = Some sv2,
           res_notes = [?W] @ [?W]\<rparr>" and
    d2: "design s1 = Inr (r2, s2)"
    using override_design_from[where N="[?W]" and ?h0.0="Some 100" and ?d0.0="Some 73.65"
            and ?wu0.0="Some 9.6" and ?ms0.0="[(''Positive Moment (Midspan)'', 14.7)]"
            and ?R0.0=R1 and ?S0.0="Some ?SH" and ?V0.0="Some sv1"]
    unfolding e1[symmetric] by auto
  have "res_notes r1 \<noteq> res_notes r2" by (simp add: r1 r2)
  then have "r1 \<noteq> r2" by auto
  then show ?thesis using d1 d2 by (auto simp: r1 r2)
qed

end
